theory Spec2Isabelle
  imports Complex_Main
begin

section \<open>Text, lines and parameter mappings (FRED/main.py)\<close>

text \<open>
  File contents are decoded text. A character is a code point below 256, so the
  whitespace that \<^verbatim>\<open>str.strip()\<close> removes is: tab, line feed, vertical tab,
  form feed, carriage return, the separators 0x1C..0x1F, space, NEL (0x85) and the
  no-break space (0xA0).
\<close>

definition is_space :: "char \<Rightarrow> bool" where
  "is_space c =
     (let n = (of_char c :: nat)
      in (9 \<le> n \<and> n \<le> 13) \<or> (28 \<le> n \<and> n \<le> 32) \<or> n = 133 \<or> n = 160)"

definition lstrip :: "string \<Rightarrow> string" where
  "lstrip s = dropWhile is_space s"

definition rstrip :: "string \<Rightarrow> string" where
  "rstrip s = rev (dropWhile is_space (rev s))"

definition strip :: "string \<Rightarrow> string" where
  \<comment> \<open>\<^verbatim>\<open>x.strip()\<close>\<close>
  "strip s = rstrip (lstrip s)"

definition startswith_hash :: "string \<Rightarrow> bool" where
  \<comment> \<open>\<^verbatim>\<open>x.startswith('#')\<close>\<close>
  "startswith_hash s = (case s of [] \<Rightarrow> False | c # _ \<Rightarrow> c = CHR ''#'')"

fun split :: "char \<Rightarrow> string \<Rightarrow> string list" where
  \<comment> \<open>\<^verbatim>\<open>s.split(sep)\<close> with a one-character separator and no limit: every occurrence splits\<close>
  "split sep [] = [[]]"
| "split sep (c # cs) =
     (if c = sep then [] # split sep cs
      else (case split sep cs of [] \<Rightarrow> [[c]] | p # ps \<Rightarrow> (c # p) # ps))"

fun universal_newlines :: "string \<Rightarrow> string" where
  \<comment> \<open>text mode on reading: \<^verbatim>\<open>\r\n\<close> and a lone \<^verbatim>\<open>\r\<close> become \<^verbatim>\<open>\n\<close>\<close>
  "universal_newlines [] = []"
| "universal_newlines [c] = (if c = CHR 0x0D then [CHR 0x0A] else [c])"
| "universal_newlines (c # d # cs) =
     (if c = CHR 0x0D then
        (if d = CHR 0x0A then CHR 0x0A # universal_newlines cs
         else CHR 0x0A # universal_newlines (d # cs))
      else c # universal_newlines (d # cs))"

fun lines_from :: "string \<Rightarrow> string \<Rightarrow> string list" where
  \<comment> \<open>the lines of a text, each with its terminating line feed; the second argument is
      the line collected so far\<close>
  "lines_from cur [] = (if cur = [] then [] else [cur])"
| "lines_from cur (c # cs) =
     (if c = CHR 0x0A then (cur @ [c]) # lines_from [] cs else lines_from (cur @ [c]) cs)"

definition readlines :: "string \<Rightarrow> string list" where
  \<comment> \<open>\<^verbatim>\<open>f.readlines()\<close> of a file opened with \<^verbatim>\<open>open(path, 'r')\<close>\<close>
  "readlines text = lines_from [] (universal_newlines text)"

text \<open>
  A Python dict keeps its keys unique and in insertion order: assigning to a key that is
  present replaces the value in place, assigning to a new key appends it.
\<close>

type_synonym ('k, 'v) dict = "('k \<times> 'v) list"

fun dict_set :: "('k, 'v) dict \<Rightarrow> 'k \<Rightarrow> 'v \<Rightarrow> ('k, 'v) dict" where
  \<comment> \<open>\<^verbatim>\<open>d[k] = v\<close>\<close>
  "dict_set [] k v = [(k, v)]"
| "dict_set ((k', v') # d) k v = (if k' = k then (k, v) # d else (k', v') # dict_set d k v)"

definition dict_get :: "('k, 'v) dict \<Rightarrow> 'k \<Rightarrow> 'v option" where
  "dict_get d k = map_of d k"

definition dict_update :: "('k, 'v) dict \<Rightarrow> ('k, 'v) dict \<Rightarrow> ('k, 'v) dict" where
  \<comment> \<open>\<^verbatim>\<open>d.update(e)\<close>: the items of \<open>e\<close> are assigned in order\<close>
  "dict_update d e = fold (\<lambda>(k, v) acc. dict_set acc k v) e d"

text \<open>
  The exceptions. \<open>Raised k\<close> is an exception from outside this program (the inference
  library, the operating system) whose class derives from \<^verbatim>\<open>Exception\<close>; the number
  tells such classes apart. \<^verbatim>\<open>KeyboardInterrupt\<close>, \<^verbatim>\<open>SystemExit\<close> and
  \<^verbatim>\<open>GeneratorExit\<close> derive from \<^verbatim>\<open>BaseException\<close> only, and so does every class
  \<open>BaseOnly k\<close>.
\<close>

datatype exc =
    AssertionError
  | IndexError
  | KeyError string
  | ValueError
  | TypeError
  | FileNotFoundError string
  | FileExistsError string
  | IsADirectoryError string
  | NotADirectoryError string
  | NotImplementedError
  | UnboundLocalError string
  | PlainException string
  | Raised nat
  | KeyboardInterrupt
  | SystemExit
  | GeneratorExit
  | BaseOnly nat

fun parse_lines :: "string list \<Rightarrow> (string, string) dict \<Rightarrow> exc + (string, string) dict" where
  \<comment> \<open>the loop of \<^verbatim>\<open>read_param_file\<close>: \<^verbatim>\<open>parts[1]\<close> raises IndexError when the line
      has no \<^verbatim>\<open>=\<close>\<close>
  "parse_lines [] d = Inr d"
| "parse_lines (l # ls) d =
     (case split CHR ''='' l of
        p0 # p1 # _ \<Rightarrow> parse_lines ls (dict_set d (strip p0) (strip p1))
      | _ \<Rightarrow> Inl IndexError)"

definition param_lines :: "string list \<Rightarrow> string list" where
  \<comment> \<open>strip every line, then drop comments and empty lines\<close>
  "param_lines ls = filter (\<lambda>x. \<not> (startswith_hash x \<or> x = [])) (map strip ls)"

definition read_param_text :: "string \<Rightarrow> exc + (string, string) dict" where
  \<comment> \<open>\<^verbatim>\<open>read_param_file\<close> after the file has been opened: from the text to the mapping\<close>
  "read_param_text text = parse_lines (param_lines (readlines text)) []"

definition write_params :: "(string, string) dict \<Rightarrow> string" where
  \<comment> \<open>what the loop \<^verbatim>\<open>f.write(f'{param} = {value}\n')\<close> writes\<close>
  "write_params d = concat (map (\<lambda>(k, v). k @ '' = '' @ v @ [CHR 0x0A]) d)"

section \<open>The process state: files, directories, dict objects, the defaults cache\<close>

text \<open>
  A float64 value: not a number, an infinity, or the finite double of the exact value
  \<open>r\<close>. Two doubles are compared by their exact values; a comparison with nan is false.
  The literals of the program denote the doubles nearest to them.
\<close>

datatype double = NaN | NegInf | Fin real | PosInf

fun float_lt :: "double \<Rightarrow> double \<Rightarrow> bool" where
  "float_lt (Fin x) (Fin y) = (x < y)"
| "float_lt NegInf (Fin y) = True"
| "float_lt NegInf PosInf = True"
| "float_lt (Fin x) PosInf = True"
| "float_lt a b = False"

definition float_le :: "double \<Rightarrow> double \<Rightarrow> bool" where
  "float_le a b = (float_lt a b \<or> (a = b \<and> a \<noteq> NaN))"

definition literal_0_2 :: double where
  \<comment> \<open>the double written \<^verbatim>\<open>0.2\<close>, a little above 1/5\<close>
  "literal_0_2 = Fin (3602879701896397 / 18014398509481984)"

definition literal_0_5 :: double where
  \<comment> \<open>the double written \<^verbatim>\<open>0.5\<close>\<close>
  "literal_0_5 = Fin (1 / 2)"

definition literal_0_8 :: double where
  \<comment> \<open>the double written \<^verbatim>\<open>0.8\<close>, a little above 4/5\<close>
  "literal_0_8 = Fin (3602879701896397 / 4503599627370496)"

datatype out =
    Likelihood nat double
  | AverageSuccessRate double
  | FailedCompressing
  | DoneKilling nat
  | Compressing

text \<open>
  Text files and zip archives are kept apart (an archive is the list of its members).
  Every dict that a function returns is an object on the heap, named by its address, so
  that sharing between the module-level cache \<^verbatim>\<open>default_params\<close> and the callers'
  mappings is visible. \<open>FRED_HOME\<close> is the environment variable read at import.
\<close>

record world =
  FRED_HOME :: string
  files :: "(string, string) dict"
  dirs :: "string list"
  zips :: "(string, (string \<times> string) list) dict"
  heap :: "nat \<Rightarrow> (string, string) dict"
  next_addr :: nat
  default_params :: "nat option"
  stdout :: "out list"
  killed :: "nat list"

definition path_join :: "string \<Rightarrow> string \<Rightarrow> string" where
  \<comment> \<open>\<^verbatim>\<open>os.path.join(a, b)\<close>; also used for \<^verbatim>\<open>Path(a) / b\<close>, whose removal of
      redundant separators is not modelled\<close>
  "path_join a b =
     (if b \<noteq> [] \<and> hd b = CHR ''/'' then b
      else if a = [] \<or> last a = CHR ''/'' then a @ b
      else a @ ''/'' @ b)"

definition dirname :: "string \<Rightarrow> string" where
  \<comment> \<open>\<^verbatim>\<open>os.path.dirname\<close>\<close>
  "dirname p =
     (let head = rev (dropWhile (\<lambda>c. c \<noteq> CHR ''/'') (rev p))
      in if head \<noteq> [] \<and> \<not> list_all (\<lambda>c. c = CHR ''/'') head
         then rev (dropWhile (\<lambda>c. c = CHR ''/'') (rev head))
         else head)"

definition path_exists :: "world \<Rightarrow> string \<Rightarrow> bool" where
  \<comment> \<open>\<^verbatim>\<open>os.path.exists\<close>\<close>
  "path_exists w p =
     (p \<in> set (map fst (files w)) \<or> p \<in> set (dirs w) \<or> p \<in> set (map fst (zips w)))"

definition open_read :: "string \<Rightarrow> world \<Rightarrow> exc + string" where
  \<comment> \<open>\<^verbatim>\<open>open(path, 'r')\<close> and reading the whole text\<close>
  "open_read path w =
     (case dict_get (files w) path of
        Some text \<Rightarrow> Inr text
      | None \<Rightarrow>
          if path \<in> set (dirs w) then Inl (IsADirectoryError path)
          else Inl (FileNotFoundError path))"

definition open_write :: "string \<Rightarrow> string \<Rightarrow> world \<Rightarrow> (exc + unit) \<times> world" where
  \<comment> \<open>\<^verbatim>\<open>open(path, 'w')\<close>, writing the text and closing: the file is replaced\<close>
  "open_write path text w =
     (if path \<in> set (dirs w) then (Inl (IsADirectoryError path), w)
      else if path = [] \<or> \<not> (dirname path = [] \<or> dirname path \<in> set (dirs w))
      then (Inl (FileNotFoundError path), w)
      else (Inr (), w\<lparr>files := dict_set (files w) path text\<rparr>))"

definition print :: "out \<Rightarrow> world \<Rightarrow> world" where
  "print x w = w\<lparr>stdout := stdout w @ [x]\<rparr>"

definition alloc :: "(string, string) dict \<Rightarrow> world \<Rightarrow> nat \<times> world" where
  \<comment> \<open>a new dict object\<close>
  "alloc d w = (next_addr w, w\<lparr>heap := (heap w)(next_addr w := d), next_addr := Suc (next_addr w)\<rparr>)"

definition read_param_file :: "string \<Rightarrow> world \<Rightarrow> (exc + nat) \<times> world" where
  "read_param_file path w =
     (case open_read path w of
        Inl e \<Rightarrow> (Inl e, w)
      | Inr text \<Rightarrow>
          (case read_param_text text of
             Inl e \<Rightarrow> (Inl e, w)
           | Inr d \<Rightarrow> (let (a, w') = alloc d w in (Inr a, w'))))"

definition get_default_params :: "world \<Rightarrow> (exc + nat) \<times> world" where
  "get_default_params w =
     (case default_params w of
        Some c \<Rightarrow> (let (a, w') = alloc (heap w c) w in (Inr a, w'))
      | None \<Rightarrow>
          (let defaults = ''defaults'';
               defaults = (if \<not> path_exists w defaults
                           then path_join (path_join (FRED_HOME w) ''input_files'') ''defaults''
                           else defaults)
           in if \<not> path_exists w defaults
              then (Inl (PlainException ''could not find defaults file''), w)
              else
                (case read_param_file defaults w of
                   (Inl e, w1) \<Rightarrow> (Inl e, w1)
                 | (Inr params, w1) \<Rightarrow>
                     (let (c, w2) = alloc (heap w1 params) w1
                      in (Inr params, w2\<lparr>default_params := Some c\<rparr>)))))"

section \<open>The experiment configuration and \<^verbatim>\<open>dump_parameter_file\<close>\<close>

text \<open>
  \<open>args\<close> is the namespace built from the configuration. The last three fields are the
  attributes that \<^verbatim>\<open>init\<close> adds; their values in a configuration handed to
  \<^verbatim>\<open>init\<close> are not read.
\<close>

record args =
  params_base :: string
  out_level_1 :: string
  out_level_2 :: string
  out_level_3 :: string
  tmp_directory :: "string option"
  debug :: bool
  dump_simulator_log :: bool
  days :: "int option"
  county :: string
  fips :: int
  num_traces :: nat
  kill_on_zero_likelihood :: bool
  constraint_threshold :: real
  compressed_file_path :: "string option"
  out_dir :: string
  params :: string

definition dict_update_at :: "nat \<Rightarrow> (string, string) dict \<Rightarrow> world \<Rightarrow> world" where
  \<comment> \<open>\<^verbatim>\<open>p.update(e)\<close> on the dict object at address \<open>p\<close>\<close>
  "dict_update_at p e w = w\<lparr>heap := (heap w)(p := dict_update (heap w p) e)\<rparr>"

definition dump_parameter_file ::
    "string \<Rightarrow> args \<Rightarrow> (string, string) dict \<Rightarrow> world \<Rightarrow> (exc + unit) \<times> world" where
  \<comment> \<open>the sampled values are given as the text that the f-string writes for them\<close>
  "dump_parameter_file path a sampled_parameters w =
     (case get_default_params w of
        (Inl e, w1) \<Rightarrow> (Inl e, w1)
      | (Inr p, w1) \<Rightarrow>
          (case read_param_file (params a) w1 of
             (Inl e, w2) \<Rightarrow> (Inl e, w2)
           | (Inr b, w2) \<Rightarrow>
               (let w3 = dict_update_at p (heap w2 b) w2;
                    w4 = dict_update_at p sampled_parameters w3
                in open_write path (write_params (heap w4 p)) w4)))"

section \<open>Numbers as text\<close>

definition digit_char :: "nat \<Rightarrow> char" where
  \<comment> \<open>the decimal digit \<open>n\<close>; it is applied below 10 only\<close>
  "digit_char n = ''0123456789'' ! n"

fun str_nat :: "nat \<Rightarrow> string" where
  \<comment> \<open>\<^verbatim>\<open>str(n)\<close> of a non-negative int\<close>
  "str_nat n = (if n < 10 then [digit_char n] else str_nat (n div 10) @ [digit_char (n mod 10)])"

definition str_int :: "int \<Rightarrow> string" where
  "str_int i = (if i < 0 then CHR ''-'' # str_nat (nat (- i)) else str_nat (nat i))"

definition is_digit :: "char \<Rightarrow> bool" where
  "is_digit c = (48 \<le> (of_char c :: nat) \<and> (of_char c :: nat) \<le> 57)"

fun parse_digits :: "string \<Rightarrow> nat \<Rightarrow> bool \<Rightarrow> nat option" where
  \<comment> \<open>decimal digits, single underscores allowed between two digits; the flag says that
      the previous character was a digit\<close>
  "parse_digits [] acc prev = (if prev then Some acc else None)"
| "parse_digits (c # cs) acc prev =
     (if is_digit c then parse_digits cs (10 * acc + ((of_char c :: nat) - 48)) True
      else if c = CHR ''_'' \<and> prev then parse_digits cs acc False
      else None)"

definition py_int :: "string \<Rightarrow> exc + int" where
  \<comment> \<open>\<^verbatim>\<open>int(s)\<close> of a string, base 10, ASCII digits: surrounding whitespace and one sign
      are accepted; anything else raises ValueError\<close>
  "py_int s =
     (let t = strip s;
          (neg, ds) = (case t of
                         [] \<Rightarrow> (False, [])
                       | c # cs \<Rightarrow>
                           if c = CHR ''-'' then (True, cs)
                           else if c = CHR ''+'' then (False, cs)
                           else (False, t))
      in case parse_digits ds 0 False of
           None \<Rightarrow> Inl ValueError
         | Some n \<Rightarrow> Inr (if neg then - int n else int n))"

section \<open>\<^verbatim>\<open>init\<close>\<close>

text \<open>
  What the program takes from outside itself: the temporary-name generator, the JSON
  writer, the inference library (the constructor of the remote model, the posterior
  call, the process the model holds, the tensor operations \<^verbatim>\<open>.int()\<close> and
  \<^verbatim>\<open>.item()\<close> with the text an f-string gives the item, the serialisation of the
  traces), and the exponential of numpy on doubles. \<open>'v\<close> is the type of a variable's
  value (a tensor).
\<close>

record 'v variable =
  val :: 'v
  observed :: bool

record 'v trace =
  named_variables :: "(string, 'v variable) dict"
  log_importance_weight :: double

record 'v externals =
  mktemp :: "string \<Rightarrow> string"
  json_dump_args :: "args \<Rightarrow> string"
  RemoteModel :: "exc option"
  posterior :: "nat \<Rightarrow> (string, real) dict \<Rightarrow> exc + 'v trace list"
  model_process :: "nat option"
  tensor_int :: "'v \<Rightarrow> 'v"
  item_str :: "'v \<Rightarrow> string"
  json_dump_weights :: "(nat, nat) dict \<Rightarrow> string"
  traces_copy :: "exc + string"
  np_exp :: "double \<Rightarrow> double"

definition ancestors :: "string \<Rightarrow> string list" where
  \<comment> \<open>the proper prefixes of a path that end before a separator\<close>
  "ancestors p = map (\<lambda>i. take i p) (filter (\<lambda>i. p ! i = CHR ''/'') [1..<length p])"

definition mkdir :: "string \<Rightarrow> bool \<Rightarrow> world \<Rightarrow> (exc + unit) \<times> world" where
  \<comment> \<open>\<^verbatim>\<open>Path(path).mkdir(parents=True, exist_ok=exist_ok)\<close>; the empty path is the
      current directory\<close>
  "mkdir path exist_ok w =
     (if path \<in> set (map fst (files w)) \<or> path \<in> set (map fst (zips w))
      then (Inl (FileExistsError path), w)
      else if path = [] \<or> path \<in> set (dirs w)
      then (if exist_ok then (Inr (), w) else (Inl (FileExistsError path), w))
      else if \<exists>d \<in> set (ancestors path). d \<in> set (map fst (files w))
      then (Inl (NotADirectoryError path), w)
      else (Inr (), w\<lparr>dirs := dirs w @ filter (\<lambda>d. d \<notin> set (dirs w)) (ancestors path @ [path])\<rparr>))"

definition dict_set_at :: "nat \<Rightarrow> string \<Rightarrow> string \<Rightarrow> world \<Rightarrow> world" where
  \<comment> \<open>\<^verbatim>\<open>d[k] = v\<close> on the dict object at address \<open>a\<close>\<close>
  "dict_set_at a k v w = w\<lparr>heap := (heap w)(a := dict_set (heap w a) k v)\<rparr>"

definition init_out_dir ::
    "'v externals \<Rightarrow> args \<Rightarrow> world \<Rightarrow> (exc + string \<times> args) \<times> world" where
  \<comment> \<open>\<^verbatim>\<open>init\<close>, the choice of the output directory and of the archive path\<close>
  "init_out_dir ext config w =
     (case tmp_directory config of
        None \<Rightarrow>
          (Inr (path_join (path_join (out_level_1 config) (out_level_2 config)) (out_level_3 config),
                config\<lparr>compressed_file_path := None\<rparr>), w)
      | Some tmp \<Rightarrow>
          (let a = config\<lparr>tmp_directory := Some (mktemp ext tmp)\<rparr>;
               out = path_join (path_join (mktemp ext tmp) (out_level_2 a)) (out_level_3 a);
               cfp = path_join (path_join (out_level_1 a) (out_level_2 a)) (out_level_3 a @ ''.zip'')
           in if \<not> debug a \<and> path_exists w cfp then (Inl AssertionError, w)
              else
                (case mkdir (dirname cfp) True w of
                   (Inl e, w1) \<Rightarrow> (Inl e, w1)
                 | (Inr _, w1) \<Rightarrow> (Inr (out, a\<lparr>compressed_file_path := Some cfp\<rparr>), w1))))"

definition resolve_days :: "args \<Rightarrow> nat \<Rightarrow> world \<Rightarrow> (exc + args) \<times> world" where
  \<comment> \<open>\<^verbatim>\<open>init\<close>, the day count; \<open>base_params\<close> is the address of the base mapping\<close>
  "resolve_days a base_params w =
     (case days a of
        Some d \<Rightarrow> (Inr a, dict_set_at base_params ''days'' (str_int d) w)
      | None \<Rightarrow>
          (case dict_get (heap w base_params) ''days'' of
             Some s \<Rightarrow>
               (case py_int s of
                  Inl e \<Rightarrow> (Inl e, w)
                | Inr n \<Rightarrow> (Inr (a\<lparr>days := Some n\<rparr>), w))
           | None \<Rightarrow>
               (case get_default_params w of
                  (Inl e, w1) \<Rightarrow> (Inl e, w1)
                | (Inr p, w1) \<Rightarrow>
                    (case dict_get (heap w1 p) ''days'' of
                       None \<Rightarrow> (Inl (KeyError ''days''), w1)
                     | Some s \<Rightarrow>
                         (case py_int s of
                            Inl e \<Rightarrow> (Inl e, w1)
                          | Inr n \<Rightarrow> (Inr (a\<lparr>days := Some n\<rparr>), w1))))))"

definition init :: "'v externals \<Rightarrow> args \<Rightarrow> nat \<Rightarrow> world \<Rightarrow> (exc + args) \<times> world" where
  \<comment> \<open>the seed only sets the random state of the inference library\<close>
  "init ext config seed w =
     (case init_out_dir ext config w of
        (Inl e, w1) \<Rightarrow> (Inl e, w1)
      | (Inr (out, a1), w1) \<Rightarrow>
          (case mkdir out (debug a1) w1 of
             (Inl e, w2) \<Rightarrow> (Inl e, w2)
           | (Inr _, w2) \<Rightarrow>
               (case read_param_file (params_base a1) w2 of
                  (Inl e, w3) \<Rightarrow> (Inl e, w3)
                | (Inr base_params, w3) \<Rightarrow>
                    (case resolve_days (a1\<lparr>out_dir := out\<rparr>) base_params
                            (dict_set_at base_params ''fips'' (str_int (fips a1)) w3) of
                       (Inl e, w4) \<Rightarrow> (Inl e, w4)
                     | (Inr a2, w4) \<Rightarrow>
                         (let a3 = a2\<lparr>params := path_join (out_dir a2) ''params_generated''\<rparr>
                          in case open_write (params a3) (write_params (heap w4 base_params)) w4 of
                               (Inl e, w5) \<Rightarrow> (Inl e, w5)
                             | (Inr _, w5) \<Rightarrow>
                                 (case open_write (path_join (out_dir a3) ''config.json'')
                                         (json_dump_args ext a3) w5 of
                                    (Inl e, w6) \<Rightarrow> (Inl e, w6)
                                  | (Inr _, w6) \<Rightarrow> (Inr a3, w6)))))))"

section \<open>\<^verbatim>\<open>zipdir\<close> and \<^verbatim>\<open>run\<close>\<close>

definition members :: "string \<Rightarrow> world \<Rightarrow> (string \<times> string) list" where
  \<comment> \<open>the files below a directory, named relative to it, as \<^verbatim>\<open>os.walk('.')\<close> finds them\<close>
  "members dir_path w =
     (let prefix = (if dir_path \<noteq> [] \<and> last dir_path = CHR ''/'' then dir_path else dir_path @ ''/'')
      in map (\<lambda>(p, text). (drop (length prefix) p, text))
           (filter (\<lambda>(p, text). length prefix < length p \<and> take (length prefix) p = prefix) (files w)))"

definition zipdir :: "string \<Rightarrow> string \<Rightarrow> world \<Rightarrow> (exc + unit) \<times> world" where
  \<comment> \<open>the archive is created first; \<^verbatim>\<open>os.chdir\<close> then fails when the directory is missing\<close>
  "zipdir path dir_path w =
     (if path \<in> set (dirs w) then (Inl (IsADirectoryError path), w)
      else if path = [] \<or> \<not> (dirname path = [] \<or> dirname path \<in> set (dirs w))
      then (Inl (FileNotFoundError path), w)
      else if dir_path \<notin> set (dirs w)
      then (Inl (FileNotFoundError dir_path), w\<lparr>zips := dict_set (zips w) path []\<rparr>)
      else (Inr (), w\<lparr>zips := dict_set (zips w) path (members dir_path w)\<rparr>))"

definition is_Exception :: "exc \<Rightarrow> bool" where
  \<comment> \<open>the classes that \<^verbatim>\<open>except Exception\<close> catches\<close>
  "is_Exception e =
     (case e of
        KeyboardInterrupt \<Rightarrow> False
      | SystemExit \<Rightarrow> False
      | GeneratorExit \<Rightarrow> False
      | BaseOnly k \<Rightarrow> False
      | _ \<Rightarrow> True)"

definition np_mean :: "real list \<Rightarrow> double" where
  \<comment> \<open>\<^verbatim>\<open>np.mean\<close> of a list of integers: nan for the empty list; the float64 sum and
      quotient are exact, and so is this value, while the sum stays below \<open>2^53\<close> and the
      mean is a double\<close>
  "np_mean xs = (if xs = [] then NaN else Fin (sum_list xs / real (length xs)))"

definition sampled_parameters_of :: "'v externals \<Rightarrow> 'v trace \<Rightarrow> (string, string) dict" where
  \<comment> \<open>\<^verbatim>\<open>{name: variable.value.item() for ... if not variable.observed}\<close>\<close>
  "sampled_parameters_of ext t =
     map (\<lambda>(name, var). (name, item_str ext (val var)))
       (filter (\<lambda>(name, var). \<not> observed var) (named_variables t))"

definition write_trace_params ::
    "'v externals \<Rightarrow> args \<Rightarrow> nat \<Rightarrow> 'v trace \<Rightarrow> world \<Rightarrow> (exc + 'v trace) \<times> world" where
  \<comment> \<open>the loop body, first part: the duration is made an integer (KeyError when the trace
      has no such variable) and \<^verbatim>\<open>params<idx>\<close> is written\<close>
  "write_trace_params ext a idx t w =
     (case dict_get (named_variables t) ''shelter_in_place_duration_mean'' of
        None \<Rightarrow> (Inl (KeyError ''shelter_in_place_duration_mean''), w)
      | Some var \<Rightarrow>
          (let t' = t\<lparr>named_variables :=
                        dict_set (named_variables t) ''shelter_in_place_duration_mean''
                          (var\<lparr>val := tensor_int ext (val var)\<rparr>)\<rparr>
           in case dump_parameter_file (path_join (out_dir a) (''params'' @ str_nat idx)) a
                     (sampled_parameters_of ext t') w of
                (Inl e, w1) \<Rightarrow> (Inl e, w1)
              | (Inr _, w1) \<Rightarrow> (Inr t', w1)))"

definition classify_weight ::
    "'v externals \<Rightarrow> nat \<Rightarrow> 'v trace \<Rightarrow> (nat, nat) dict \<Rightarrow> world
      \<Rightarrow> (exc + (nat, nat) dict) \<times> world" where
  \<comment> \<open>the loop body, second part: the weight, a double, is computed and printed, the
      assertion is checked on it, the outcome is stored\<close>
  "classify_weight ext idx t trace_weights w =
     (let weight = np_exp ext (log_importance_weight t);
          w1 = print (Likelihood idx weight) w
      in if float_lt weight literal_0_2 \<or> float_lt literal_0_8 weight
         then (Inr (dict_set trace_weights idx (if float_lt literal_0_5 weight then 1 else 0)), w1)
         else (Inl AssertionError, w1))"

definition process_trace ::
    "'v externals \<Rightarrow> args \<Rightarrow> nat \<Rightarrow> 'v trace \<Rightarrow> (nat, nat) dict \<Rightarrow> world
      \<Rightarrow> (exc + (nat, nat) dict) \<times> world" where
  \<comment> \<open>the body of the loop over the traces in \<^verbatim>\<open>run\<close>\<close>
  "process_trace ext a idx t trace_weights w =
     (case write_trace_params ext a idx t w of
        (Inl e, w1) \<Rightarrow> (Inl e, w1)
      | (Inr t', w1) \<Rightarrow> classify_weight ext idx t' trace_weights w1)"

fun trace_loop ::
    "'v externals \<Rightarrow> args \<Rightarrow> (nat \<times> 'v trace) list \<Rightarrow> (nat, nat) dict \<Rightarrow> world
      \<Rightarrow> (exc + (nat, nat) dict) \<times> world" where
  \<comment> \<open>\<^verbatim>\<open>for idx, trace in enumerate(traces)\<close>\<close>
  "trace_loop ext a [] trace_weights w = (Inr trace_weights, w)"
| "trace_loop ext a ((idx, t) # rest) trace_weights w =
     (case process_trace ext a idx t trace_weights w of
        (Inl e, w1) \<Rightarrow> (Inl e, w1)
      | (Inr trace_weights', w1) \<Rightarrow> trace_loop ext a rest trace_weights' w1)"

definition save_results ::
    "'v externals \<Rightarrow> args \<Rightarrow> (nat, nat) dict \<Rightarrow> world \<Rightarrow> (exc + unit) \<times> world" where
  \<comment> \<open>\<^verbatim>\<open>run\<close> after the loop: the diagnostic, \<^verbatim>\<open>weights.json\<close>, the traces\<close>
  "save_results ext a trace_weights w =
     (let w1 = print (AverageSuccessRate (np_mean (map (\<lambda>(idx, y). real idx) trace_weights))) w
      in case open_write (path_join (out_dir a) ''weights.json'')
                (json_dump_weights ext trace_weights) w1 of
           (Inl e, w2) \<Rightarrow> (Inl e, w2)
         | (Inr _, w2) \<Rightarrow>
             (case traces_copy ext of
                Inl e \<Rightarrow> (Inl e, w2)
              | Inr blob \<Rightarrow> open_write (path_join (out_dir a) ''traces'') blob w2))"

definition run_try :: "'v externals \<Rightarrow> args \<Rightarrow> world \<Rightarrow> (exc + unit) \<times> bool \<times> world" where
  \<comment> \<open>the \<^verbatim>\<open>try\<close> block of \<^verbatim>\<open>run\<close>; the flag says whether the local name
      \<^verbatim>\<open>model\<close> has been assigned\<close>
  "run_try ext a w =
     (case RemoteModel ext of
        Some e \<Rightarrow> (Inl e, False, w)
      | None \<Rightarrow>
          (case days a of
             None \<Rightarrow> (Inl TypeError, True, w)
           | Some n \<Rightarrow>
               (case posterior ext (num_traces a)
                       (map (\<lambda>i. (''obs_'' @ str_nat i, constraint_threshold a)) [0..<nat n]) of
                  Inl e \<Rightarrow> (Inl e, True, w)
                | Inr traces \<Rightarrow>
                    (case trace_loop ext a (enumerate 0 traces) [] w of
                       (Inl e, w1) \<Rightarrow> (Inl e, True, w1)
                     | (Inr trace_weights, w1) \<Rightarrow>
                         (case save_results ext a trace_weights w1 of
                            (r, w2) \<Rightarrow> (r, True, w2))))))"

definition run_except :: "args \<Rightarrow> exc \<Rightarrow> world \<Rightarrow> exc \<times> world" where
  \<comment> \<open>\<^verbatim>\<open>except Exception as e\<close>: the exception in flight after the clause\<close>
  "run_except a e w =
     (if is_Exception e then
        (case compressed_file_path a of
           None \<Rightarrow> (e, w)
         | Some cfp \<Rightarrow>
             (case zipdir (cfp @ ''_failed'') (out_dir a) (print FailedCompressing w) of
                (Inl e2, w1) \<Rightarrow> (e2, w1)
              | (Inr _, w1) \<Rightarrow> (e, w1)))
      else (e, w))"

definition run_finally :: "'v externals \<Rightarrow> bool \<Rightarrow> world \<Rightarrow> (exc + unit) \<times> world" where
  \<comment> \<open>the \<^verbatim>\<open>finally\<close> block: reading \<^verbatim>\<open>model\<close> when it was never assigned raises
      UnboundLocalError\<close>
  "run_finally ext bound w =
     (if \<not> bound then (Inl (UnboundLocalError ''model''), w)
      else
        (case model_process ext of
           None \<Rightarrow> (Inr (), w)
         | Some pid \<Rightarrow> (Inr (), (print (DoneKilling pid) w)\<lparr>killed := killed w @ [pid]\<rparr>)))"

definition run :: "'v externals \<Rightarrow> args \<Rightarrow> world \<Rightarrow> (exc + unit) \<times> world" where
  \<comment> \<open>an exception raised by the \<^verbatim>\<open>finally\<close> block replaces the one in flight\<close>
  "run ext a w =
     (case run_try ext a w of
        (Inl e, bound, w1) \<Rightarrow>
          (case run_except a e w1 of
             (e', w2) \<Rightarrow>
               (case run_finally ext bound w2 of
                  (Inl e3, w3) \<Rightarrow> (Inl e3, w3)
                | (Inr _, w3) \<Rightarrow> (Inl e', w3)))
      | (Inr _, bound, w1) \<Rightarrow>
          (case run_finally ext bound w1 of
             (Inl e3, w3) \<Rightarrow> (Inl e3, w3)
           | (Inr _, w3) \<Rightarrow>
               (case compressed_file_path a of
                  None \<Rightarrow> (Inr (), w3)
                | Some cfp \<Rightarrow> zipdir cfp (out_dir a) (print Compressing w3))))"

section \<open>The trajectory plot (SEIR_ODE/examples/plotting.py)\<close>

text \<open>
  A result tensor has the shape (time, simulation, compartment); a statistic is an array
  of shape (time, simulation). The module draws \<^verbatim>\<open>_sims_to_plot\<close> once, at import:
  \<open>n_sims_to_plot\<close> numbers from 0 to 999; it is a parameter here. What is drawn on the
  axes is kept as a list; the time axis, labels and limits are left out.
\<close>

record tensor3 =
  n_time :: nat
  n_sims :: nat
  n_comp :: nat
  entry :: "nat \<Rightarrow> nat \<Rightarrow> nat \<Rightarrow> real"

record array2 =
  n_rows :: nat
  n_cols :: nat
  cell :: "nat \<Rightarrow> nat \<Rightarrow> real"

datatype selector = SelNone | SelTrue | SelFalse | SelOther

datatype draw =
    Cla
  | Visited string array2
  | Series string nat "real list" real
  | Threshold

definition n_sims_to_plot :: nat where
  "n_sims_to_plot = 100"

definition get_statistics :: "tensor3 \<Rightarrow> exc + array2 \<times> array2 \<times> array2 \<times> array2 \<times> array2" where
  \<comment> \<open>indexing compartment 6 needs seven compartments\<close>
  "get_statistics res =
     (if n_comp res < 7 then Inl IndexError
      else
        (let arr = (\<lambda>f. \<lparr>n_rows = n_time res, n_cols = n_sims res, cell = f\<rparr>)
         in Inr (arr (\<lambda>t i. sum_list (map (entry res t i) [0..<n_comp res])),
                 arr (\<lambda>t i. entry res t i 0),
                 arr (\<lambda>t i. entry res t i 1 + entry res t i 2),
                 arr (\<lambda>t i. entry res t i 3 + entry res t i 4 + entry res t i 5),
                 arr (\<lambda>t i. entry res t i 6))))"

definition get_alphas :: "bool list \<Rightarrow> selector \<Rightarrow> exc + real list" where
  "get_alphas valid_simulations plot_valid =
     (let alpha_valid_base = 0.25; alpha_invalid_base = 0.25;
          alphas = (\<lambda>alpha_valid alpha_invalid.
                      map (\<lambda>v. alpha_invalid + alpha_valid * (if v then 1 else 0)) valid_simulations)
      in case plot_valid of
           SelNone \<Rightarrow> Inr (alphas alpha_valid_base alpha_invalid_base)
         | SelTrue \<Rightarrow> Inr (alphas (alpha_valid_base * 2) 0)
         | SelFalse \<Rightarrow> Inr (alphas 0 (alpha_invalid_base * 2))
         | SelOther \<Rightarrow> Inl NotImplementedError)"

definition column_from :: "array2 \<Rightarrow> nat \<Rightarrow> nat \<Rightarrow> exc + real list" where
  \<comment> \<open>\<^verbatim>\<open>A[s:, i]\<close>: the slice is clipped, the column index is checked\<close>
  "column_from A s i =
     (if i < n_cols A then Inr (map (\<lambda>t. cell A t i) [s..<n_rows A]) else Inl IndexError)"

fun plot_series ::
    "string \<Rightarrow> real \<Rightarrow> array2 \<Rightarrow> nat \<Rightarrow> real list \<Rightarrow> nat list \<Rightarrow> exc + draw list" where
  \<comment> \<open>\<^verbatim>\<open>[_axe.plot(_t[..], A[s:, _i], ..., alpha=k*_alphas[_i]) for _i in sims]\<close>\<close>
  "plot_series tag k A s alphas [] = Inr []"
| "plot_series tag k A s alphas (i # sims) =
     (case column_from A s i of
        Inl e \<Rightarrow> Inl e
      | Inr ys \<Rightarrow>
          if i < length alphas then
            (case plot_series tag k A s alphas sims of
               Inl e \<Rightarrow> Inl e
             | Inr ds \<Rightarrow> Inr (Series tag i ys (k * alphas ! i) # ds))
          else Inl IndexError)"

definition sims_to_plot_for :: "nat list \<Rightarrow> bool list \<Rightarrow> nat list" where
  \<comment> \<open>"Limit the number of plots"\<close>
  "sims_to_plot_for sims_to_plot valid_simulations =
     (if length sims_to_plot > length valid_simulations
      then [0..<length valid_simulations]
      else sims_to_plot)"

definition make_trajectory_plot ::
    "nat list \<Rightarrow> nat \<Rightarrow> tensor3 option \<Rightarrow> tensor3 \<Rightarrow> bool list \<Rightarrow> selector \<Rightarrow> exc + draw list" where
  \<comment> \<open>\<open>steps\<close> is \<^verbatim>\<open>np.int(np.round(1.0/_params.dt))\<close>\<close>
  "make_trajectory_plot sims_to_plot steps results_visited results_noise valid_simulations plot_valid =
     (case get_alphas valid_simulations plot_valid of
        Inl e \<Rightarrow> Inl e
      | Inr alphas \<Rightarrow>
          (let sims = sims_to_plot_for sims_to_plot valid_simulations;
               s_idx_current = (case results_visited of None \<Rightarrow> 0 | Some v \<Rightarrow> steps)
           in case (case results_visited of
                      None \<Rightarrow> Inr []
                    | Some v \<Rightarrow>
                        if n_time v > 0
                        then (case get_statistics v of
                                Inl e \<Rightarrow> Inl e
                              | Inr (p_v, s_v, e_v, i_v, r_v) \<Rightarrow>
                                  Inr [Visited ''green'' s_v, Visited ''blue'' e_v,
                                       Visited ''purple'' r_v, Visited ''red'' i_v,
                                       Visited ''k--'' p_v])
                        else Inr []) of
                Inl e \<Rightarrow> Inl e
              | Inr visited \<Rightarrow>
                  (case get_statistics results_noise of
                     Inl e \<Rightarrow> Inl e
                   | Inr (p_n, s_n, e_n, i_n, r_n) \<Rightarrow>
                       (case plot_series ''green'' 1 s_n s_idx_current alphas sims of
                          Inl e \<Rightarrow> Inl e
                        | Inr d1 \<Rightarrow>
                       (case plot_series ''blue'' 1 e_n s_idx_current alphas sims of
                          Inl e \<Rightarrow> Inl e
                        | Inr d2 \<Rightarrow>
                       (case plot_series ''purple'' 1 r_n s_idx_current alphas sims of
                          Inl e \<Rightarrow> Inl e
                        | Inr d3 \<Rightarrow>
                       (case plot_series ''red'' 2 i_n s_idx_current alphas sims of
                          Inl e \<Rightarrow> Inl e
                        | Inr d4 \<Rightarrow>
                       (case plot_series ''k--'' 1 p_n s_idx_current alphas sims of
                          Inl e \<Rightarrow> Inl e
                        | Inr d5 \<Rightarrow>
                            Inr (Cla # visited @ d1 @ d2 @ d3 @ d4 @ d5 @ [Threshold])))))))))"

section \<open>Specification-level definitions\<close>

definition result_dict :: "(exc + nat) \<times> world \<Rightarrow> exc + (string, string) dict" where
  \<comment> \<open>what a call that returns a dict gave: the exception, or the mapping at the returned
      address\<close>
  "result_dict rw = (case rw of (Inl e, w) \<Rightarrow> Inl e | (Inr a, w) \<Rightarrow> Inr (heap w a))"

definition new_world :: world where
  \<comment> \<open>a process that has just started, in an empty working directory\<close>
  "new_world =
     \<lparr>FRED_HOME = ''/fred'', files = [], dirs = [], zips = [], heap = (\<lambda>a. []), next_addr = 0,
      default_params = None, stdout = [], killed = []\<rparr>"

text \<open>
  The reading of a parameter file, said without \<^verbatim>\<open>split\<close>: the name is the text
  before the first \<^verbatim>\<open>=\<close>, the value is the text between the first \<^verbatim>\<open>=\<close> and the
  second one (or the end of the line), both stripped.
\<close>

definition field_name :: "string \<Rightarrow> string" where
  "field_name l = strip (takeWhile (\<lambda>c. c \<noteq> CHR ''='') l)"

definition field_value :: "string \<Rightarrow> string" where
  "field_value l =
     strip (takeWhile (\<lambda>c. c \<noteq> CHR ''='') (tl (dropWhile (\<lambda>c. c \<noteq> CHR ''='') l)))"

definition read_param_spec :: "string \<Rightarrow> exc + (string, string) dict" where
  "read_param_spec text =
     (let kept = filter (\<lambda>x. x \<noteq> [] \<and> hd x \<noteq> CHR ''#'') (map strip (readlines text))
      in if \<forall>l \<in> set kept. CHR ''='' \<in> set l
         then Inr (fold (\<lambda>l d. dict_set d (field_name l) (field_value l)) kept [])
         else Inl IndexError)"

text \<open>
  A key or value that survives a round trip through a parameter file: no whitespace at
  either end, no \<^verbatim>\<open>=\<close>, no line break; a key, moreover, does not start a comment.
\<close>

definition clean :: "string \<Rightarrow> bool" where
  "clean s =
     ((s = [] \<or> (\<not> is_space (hd s) \<and> \<not> is_space (last s)))
      \<and> CHR ''='' \<notin> set s \<and> CHR 0x0A \<notin> set s \<and> CHR 0x0D \<notin> set s)"

definition clean_key :: "string \<Rightarrow> bool" where
  "clean_key k = (clean k \<and> \<not> startswith_hash k)"

text \<open>The line written for an entry, and what stripping leaves of it.\<close>

definition written_line :: "string \<times> string \<Rightarrow> string" where
  "written_line kv = fst kv @ '' = '' @ snd kv @ [CHR 0x0A]"

definition key_part :: "string \<Rightarrow> string" where
  "key_part k = (if k = [] then [] else k @ '' '')"

definition value_part :: "string \<Rightarrow> string" where
  "value_part v = (if v = [] then [] else '' '' @ v)"

definition stripped_line :: "string \<times> string \<Rightarrow> string" where
  "stripped_line kv = key_part (fst kv) @ CHR ''='' # value_part (snd kv)"

text \<open>
  The value a key has in three layers, the later layer winning: the words of the
  specification for the merge in \<^verbatim>\<open>dump_parameter_file\<close>.
\<close>

definition layered ::
    "('k, 'v) dict \<Rightarrow> ('k, 'v) dict \<Rightarrow> ('k, 'v) dict \<Rightarrow> 'k \<Rightarrow> 'v option" where
  "layered defaults base sampled k =
     (case dict_get sampled k of
        Some v \<Rightarrow> Some v
      | None \<Rightarrow> (case dict_get base k of Some v \<Rightarrow> Some v | None \<Rightarrow> dict_get defaults k))"

text \<open>The configuration that \<^verbatim>\<open>my_config\<close> declares, with \<open>FRED_HOME = /fred\<close>.\<close>

definition default_config :: args where
  "default_config =
     \<lparr>params_base = ''/fred/params'', out_level_1 = ''results'', out_level_2 = ''experiment_name'',
      out_level_3 = ''simulation_number'', tmp_directory = None, debug = False,
      dump_simulator_log = True, days = None, county = ''jefferson'', fips = 42065,
      num_traces = 10, kill_on_zero_likelihood = False, constraint_threshold = 0.1,
      compressed_file_path = None, out_dir = [], params = []\<rparr>"

text \<open>
  The rest of the program, seen from \<^verbatim>\<open>get_default_params\<close>: it calls the function,
  it changes a mapping that an earlier call returned (the \<open>i\<close>-th one), it changes the
  files. \<open>client\<close> runs such a sequence and collects what every call returned: the
  address and the mapping found there at the return.
\<close>

datatype action =
    Call
  | Mutate nat "(string, string) dict"
  | SetFiles "(string, string) dict"

fun client ::
    "action list \<Rightarrow> nat list \<Rightarrow> world \<Rightarrow> (exc + nat \<times> (string, string) dict) list \<times> world" where
  "client [] returned w = ([], w)"
| "client (Call # acts) returned w =
     (case get_default_params w of
        (Inl e, w') \<Rightarrow> (let (rs, w'') = client acts returned w' in (Inl e # rs, w''))
      | (Inr a, w') \<Rightarrow>
          (let (rs, w'') = client acts (returned @ [a]) w' in (Inr (a, heap w' a) # rs, w'')))"
| "client (Mutate i d # acts) returned w =
     (if i < length returned
      then client acts returned (w\<lparr>heap := (heap w)(returned ! i := d)\<rparr>)
      else client acts returned w)"
| "client (SetFiles fs # acts) returned w = client acts returned (w\<lparr>files := fs\<rparr>)"

text \<open>
  The cache holds the mapping \<open>d0\<close> in an object of its own, which no caller has a
  reference to.
\<close>

definition cache_holds :: "nat \<Rightarrow> (string, string) dict \<Rightarrow> nat list \<Rightarrow> world \<Rightarrow> bool" where
  "cache_holds c d0 returned w =
     (default_params w = Some c \<and> heap w c = d0 \<and> c < next_addr w \<and> c \<notin> set returned
      \<and> list_all (\<lambda>a. a < next_addr w) returned)"

text \<open>
  Doubles for the examples: the doubles nearest to 0.3, 0.51 and 0.7, and the doubles
  that \<^verbatim>\<open>math.log\<close> gives for 0.2, 0.3, 0.5, 0.51, 0.7 and 0.8. \<open>example_np_exp\<close> is the
  exponential of the C library at these doubles, at 0 and at -5 (and nan anywhere else):
  it gives back 0.2, 0.3, 0.5, 0.51, 0.7 and 0.8.
\<close>

definition literal_0_3 :: double where
  "literal_0_3 = Fin (5404319552844595 / 18014398509481984)"

definition literal_0_51 :: double where
  "literal_0_51 = Fin (2296835809958953 / 4503599627370496)"

definition literal_0_7 :: double where
  "literal_0_7 = Fin (3152519739159347 / 4503599627370496)"

definition log_0_2 :: double where
  "log_0_2 = Fin (- 7248263982714163 / 4503599627370496)"

definition log_0_3 :: double where
  "log_0_3 = Fin (- 5422211472926497 / 4503599627370496)"

definition log_0_5 :: double where
  "log_0_5 = Fin (- 6243314768165359 / 9007199254740992)"

definition log_0_51 :: double where
  "log_0_51 = Fin (- 379059284896331 / 562949953421312)"

definition log_0_7 :: double where
  "log_0_7 = Fin (- 401580286153717 / 1125899906842624)"

definition log_0_8 :: double where
  "log_0_8 = Fin (- 251237303637201 / 1125899906842624)"

definition example_np_exp :: "double \<Rightarrow> double" where
  "example_np_exp x =
     (if x = Fin 0 then Fin 1
      else if x = Fin (- 5) then Fin (3884161996073403 / 576460752303423488)
      else if x = log_0_2 then literal_0_2
      else if x = log_0_3 then literal_0_3
      else if x = log_0_5 then literal_0_5
      else if x = log_0_51 then literal_0_51
      else if x = log_0_7 then literal_0_7
      else if x = log_0_8 then literal_0_8
      else NaN)"

text \<open>
  An outside world for the examples: temporary names end in \<^verbatim>\<open>tmp0\<close>, the model is
  constructed, no trace is drawn, the model holds the process 4242.
\<close>

definition example_externals :: "int externals" where
  "example_externals =
     \<lparr>mktemp = (\<lambda>d. path_join d ''tmp0''), json_dump_args = (\<lambda>a. ''{}''), RemoteModel = None,
      posterior = (\<lambda>n observe. Inr []), model_process = Some 4242, tensor_int = (\<lambda>v. v),
      item_str = str_int, json_dump_weights = (\<lambda>tw. ''{}''), traces_copy = Inr ''traces'',
      np_exp = example_np_exp\<rparr>"

text \<open>
  A run directory as \<^verbatim>\<open>init\<close> leaves it, the arguments that go with it, and a trace
  with one unobserved and one observed variable and a given log-weight.
\<close>

definition run_world :: world where
  "run_world =
     new_world\<lparr>files := [(''defaults'', ''days = 2''), (''out/params_generated'', ''fips = 42065'')],
                dirs := [''out'']\<rparr>"

definition run_args :: args where
  "run_args = default_config\<lparr>days := Some 2, out_dir := ''out'', params := ''out/params_generated''\<rparr>"

definition example_trace :: "double \<Rightarrow> int trace" where
  "example_trace lw =
     \<lparr>named_variables =
        [(''shelter_in_place_duration_mean'', \<lparr>val = 14, observed = False\<rparr>),
         (''obs_0'', \<lparr>val = 0, observed = True\<rparr>)],
      log_importance_weight = lw\<rparr>"

section \<open>Splitting, stripping and reading lines\<close>

lemma split_not_Nil: "split sep s \<noteq> []"
  by (induction s) (auto split: list.splits)

lemma split_no_sep: "sep \<notin> set s \<Longrightarrow> split sep s = [s]"
  by (induction s) auto

lemma split_append_sep: "sep \<notin> set a \<Longrightarrow> split sep (a @ sep # b) = a # split sep b"
  by (induction a) auto

lemma split_takeWhile:
  "sep \<in> set s \<Longrightarrow>
   split sep s = takeWhile (\<lambda>c. c \<noteq> sep) s # split sep (tl (dropWhile (\<lambda>c. c \<noteq> sep) s))"
  by (induction s) (auto split: list.splits)

lemma split_hd: "hd (split sep s) = takeWhile (\<lambda>c. c \<noteq> sep) s"
  by (induction s) (auto simp: split_not_Nil split: list.splits)

lemma split_two:
  assumes "sep \<in> set s"
  shows "\<exists>rest. split sep s = takeWhile (\<lambda>c. c \<noteq> sep) s
      # takeWhile (\<lambda>c. c \<noteq> sep) (tl (dropWhile (\<lambda>c. c \<noteq> sep) s)) # rest"
proof -
  define r where "r = tl (dropWhile (\<lambda>c. c \<noteq> sep) s)"
  have 1: "split sep s = takeWhile (\<lambda>c. c \<noteq> sep) s # split sep r"
    unfolding r_def by (rule split_takeWhile[OF assms])
  have "split sep r = hd (split sep r) # tl (split sep r)"
    using split_not_Nil[of sep r] by simp
  then have 2: "split sep r = takeWhile (\<lambda>c. c \<noteq> sep) r # tl (split sep r)"
    by (simp only: split_hd)
  show ?thesis
    unfolding r_def[symmetric] using 1 2 by (intro exI[of _ "tl (split sep r)"]) simp
qed

lemma parse_line_with_sep:
  assumes "CHR ''='' \<in> set l"
  shows "parse_lines (l # ls) d = parse_lines ls (dict_set d (field_name l) (field_value l))"
proof -
  from split_two[OF assms] obtain rest where
    "split CHR ''='' l = takeWhile (\<lambda>c. c \<noteq> CHR ''='') l
      # takeWhile (\<lambda>c. c \<noteq> CHR ''='') (tl (dropWhile (\<lambda>c. c \<noteq> CHR ''='') l)) # rest"
    by blast
  then show ?thesis by (simp add: field_name_def field_value_def)
qed

lemma parse_line_without_sep:
  "CHR ''='' \<notin> set l \<Longrightarrow> parse_lines (l # ls) d = Inl IndexError"
  by (simp add: split_no_sep)

lemma parse_lines_spec:
  "parse_lines ls d =
     (if \<forall>l \<in> set ls. CHR ''='' \<in> set l
      then Inr (fold (\<lambda>l d. dict_set d (field_name l) (field_value l)) ls d)
      else Inl IndexError)"
proof (induction ls arbitrary: d)
  case Nil
  then show ?case by simp
next
  case (Cons l ls)
  show ?case
  proof (cases "CHR ''='' \<in> set l")
    case True
    show ?thesis
      unfolding parse_line_with_sep[OF True] Cons.IH using True by simp
  next
    case False
    show ?thesis
      unfolding parse_line_without_sep[OF False] using False by simp
  qed
qed

lemma param_lines_kept:
  "param_lines ls = filter (\<lambda>x. x \<noteq> [] \<and> hd x \<noteq> CHR ''#'') (map strip ls)"
  unfolding param_lines_def
  by (rule filter_cong) (auto simp: startswith_hash_def split: list.splits)

lemma read_param_text_spec: "read_param_text text = read_param_spec text"
  by (simp add: read_param_text_def read_param_spec_def parse_lines_spec param_lines_kept Let_def)

lemma is_space_simps [simp]:
  "is_space CHR '' ''" "is_space (CHR 0x0A)" "\<not> is_space CHR ''=''"
  by (simp_all add: is_space_def)

lemma lstrip_Nil [simp]: "lstrip [] = []"
  by (simp add: lstrip_def)

lemma lstrip_Cons: "lstrip (c # s) = (if is_space c then lstrip s else c # s)"
  by (simp add: lstrip_def)

lemma rstrip_Nil [simp]: "rstrip [] = []"
  by (simp add: rstrip_def)

lemma rstrip_snoc: "rstrip (s @ [c]) = (if is_space c then rstrip s else s @ [c])"
  by (simp add: rstrip_def)

lemma lstrip_keep: "s \<noteq> [] \<Longrightarrow> \<not> is_space (hd s) \<Longrightarrow> lstrip (s @ t) = s @ t"
  by (cases s) (simp_all add: lstrip_def)

lemma rstrip_keep: "t \<noteq> [] \<Longrightarrow> \<not> is_space (last t) \<Longrightarrow> rstrip (s @ t) = s @ t"
  by (cases t rule: rev_cases) (simp_all add: rstrip_def)

lemma strip_keep: "s \<noteq> [] \<Longrightarrow> \<not> is_space (hd s) \<Longrightarrow> \<not> is_space (last s) \<Longrightarrow> strip s = s"
  using lstrip_keep[of s "[]"] rstrip_keep[of s "[]"] by (simp add: strip_def)

lemma rstrip_ws: "is_space c \<Longrightarrow> rstrip (s @ [c]) = rstrip s"
  by (simp add: rstrip_def)

lemma rstrip_stop: "\<not> is_space c \<Longrightarrow> rstrip (s @ [c]) = s @ [c]"
  by (simp add: rstrip_def)

lemma lstrip_written:
  assumes "clean k"
  shows "lstrip (k @ '' = '' @ t) = key_part k @ ''= '' @ t"
proof (cases "k = []")
  case True
  then show ?thesis by (simp add: lstrip_Cons key_part_def)
next
  case False
  then show ?thesis using assms lstrip_keep[of k "'' = '' @ t"] by (simp add: clean_def key_part_def)
qed

lemma rstrip_written:
  assumes "clean v"
  shows "rstrip (K @ ''= '' @ v @ [CHR 0x0A]) = K @ CHR ''='' # value_part v"
proof (cases "v = []")
  case True
  have "rstrip (((K @ ''='') @ '' '') @ [CHR 0x0A]) = rstrip ((K @ ''='') @ '' '')"
    by (rule rstrip_ws) simp
  also have "\<dots> = rstrip (K @ ''='')"
    by (rule rstrip_ws) simp
  also have "\<dots> = K @ ''=''"
    by (rule rstrip_stop) simp
  finally show ?thesis using True by (simp add: value_part_def)
next
  case False
  have "rstrip (((K @ ''= '') @ v) @ [CHR 0x0A]) = rstrip ((K @ ''= '') @ v)"
    by (rule rstrip_ws) simp
  also have "\<dots> = (K @ ''= '') @ v"
    using False assms by (intro rstrip_keep) (simp_all add: clean_def)
  finally show ?thesis using False by (simp add: value_part_def)
qed

lemma strip_written_line:
  assumes "clean k" "clean v"
  shows "strip (k @ '' = '' @ v @ [CHR 0x0A]) = stripped_line (k, v)"
  unfolding strip_def lstrip_written[OF assms(1)] rstrip_written[OF assms(2)]
  by (simp add: stripped_line_def)

lemma key_part_no_sep: "clean k \<Longrightarrow> CHR ''='' \<notin> set (key_part k)"
  by (simp add: key_part_def clean_def)

lemma value_part_no_sep: "clean v \<Longrightarrow> CHR ''='' \<notin> set (value_part v)"
  by (simp add: value_part_def clean_def)

lemma strip_key_part:
  assumes "clean k"
  shows "strip (key_part k) = k"
proof (cases "k = []")
  case True
  then show ?thesis by (simp add: key_part_def strip_def)
next
  case False
  have "strip (k @ '' '') = rstrip (k @ '' '')"
    using False assms lstrip_keep[of k "'' ''"] by (simp add: strip_def clean_def)
  also have "\<dots> = rstrip k" by (rule rstrip_ws) simp
  also have "\<dots> = k" using False assms rstrip_keep[of k "[]"] by (simp add: clean_def)
  finally show ?thesis using False by (simp add: key_part_def)
qed

lemma strip_value_part:
  assumes "clean v"
  shows "strip (value_part v) = v"
proof (cases "v = []")
  case True
  then show ?thesis by (simp add: value_part_def strip_def)
next
  case False
  then show ?thesis using assms strip_keep[of v]
    by (simp add: value_part_def strip_def lstrip_Cons clean_def)
qed

lemma stripped_line_kept:
  assumes "clean_key k"
  shows "stripped_line (k, v) \<noteq> [] \<and> hd (stripped_line (k, v)) \<noteq> CHR ''#''"
  using assms
  by (cases k) (auto simp: stripped_line_def key_part_def clean_key_def startswith_hash_def)

lemma stripped_line_has_sep: "CHR ''='' \<in> set (stripped_line kv)"
  by (simp add: stripped_line_def)

lemma takeWhile_stop: "x \<notin> set a \<Longrightarrow> takeWhile (\<lambda>c. c \<noteq> x) (a @ x # b) = a"
  by (induction a) auto

lemma dropWhile_stop: "x \<notin> set a \<Longrightarrow> dropWhile (\<lambda>c. c \<noteq> x) (a @ x # b) = x # b"
  by (induction a) auto

lemma takeWhile_all: "x \<notin> set a \<Longrightarrow> takeWhile (\<lambda>c. c \<noteq> x) a = a"
  by (induction a) auto

lemma field_name_stripped:
  assumes "clean k"
  shows "field_name (stripped_line (k, v)) = k"
  unfolding field_name_def stripped_line_def fst_conv snd_conv
    takeWhile_stop[OF key_part_no_sep[OF assms]]
  by (rule strip_key_part[OF assms])

lemma field_value_stripped:
  assumes "clean k" "clean v"
  shows "field_value (stripped_line (k, v)) = v"
  unfolding field_value_def stripped_line_def fst_conv snd_conv
    dropWhile_stop[OF key_part_no_sep[OF assms(1)]] list.sel
    takeWhile_all[OF value_part_no_sep[OF assms(2)]]
  by (rule strip_value_part[OF assms(2)])

lemma universal_newlines_id: "CHR 0x0D \<notin> set s \<Longrightarrow> universal_newlines s = s"
  by (induction s rule: universal_newlines.induct) auto

lemma lines_from_line:
  "CHR 0x0A \<notin> set l \<Longrightarrow>
   lines_from cur (l @ CHR 0x0A # rest) = (cur @ l @ [CHR 0x0A]) # lines_from [] rest"
  by (induction l arbitrary: cur) auto

lemma write_params_lines: "write_params d = concat (map written_line d)"
  unfolding write_params_def
  by (rule arg_cong[where f = concat], rule map_cong) (auto simp: written_line_def)

lemma lines_from_written:
  assumes "\<forall>(k, v) \<in> set d. clean k \<and> clean v"
  shows "lines_from [] (concat (map written_line d)) = map written_line d"
  using assms
proof (induction d)
  case Nil
  then show ?case by simp
next
  case (Cons kv d)
  obtain k v where kv: "kv = (k, v)" by (cases kv)
  have nl: "CHR 0x0A \<notin> set (k @ '' = '' @ v)" using Cons.prems kv by (simp add: clean_def)
  have wl: "written_line kv = (k @ '' = '' @ v) @ [CHR 0x0A]" by (simp add: kv written_line_def)
  have e: "concat (map written_line (kv # d))
           = (k @ '' = '' @ v) @ CHR 0x0A # concat (map written_line d)"
    by (simp add: wl)
  have ih: "lines_from [] (concat (map written_line d)) = map written_line d"
    using Cons by simp
  show ?case unfolding e lines_from_line[OF nl] ih by (simp add: wl)
qed

lemma written_no_cr:
  assumes "\<forall>(k, v) \<in> set d. clean k \<and> clean v"
  shows "CHR 0x0D \<notin> set (concat (map written_line d))"
  using assms by (induction d) (auto simp: written_line_def clean_def)

lemma readlines_written:
  assumes "\<forall>(k, v) \<in> set d. clean k \<and> clean v"
  shows "readlines (write_params d) = map written_line d"
  unfolding readlines_def write_params_lines universal_newlines_id[OF written_no_cr[OF assms]]
  by (rule lines_from_written[OF assms])

lemma param_lines_written:
  assumes "\<forall>(k, v) \<in> set d. clean_key k \<and> clean v"
  shows "param_lines (map written_line d) = map stripped_line d"
  using assms
proof (induction d)
  case Nil
  then show ?case by (simp add: param_lines_def)
next
  case (Cons kv d)
  obtain k v where kv: "kv = (k, v)" by (cases kv)
  have c: "clean k" "clean v" "clean_key k" using Cons.prems kv by (simp_all add: clean_key_def)
  have s: "strip (written_line kv) = stripped_line kv"
    using strip_written_line[OF c(1,2)] by (simp add: kv written_line_def)
  have "param_lines (map written_line d) = map stripped_line d" using Cons by simp
  then show ?case using s stripped_line_kept[OF c(3), of v]
    by (simp add: param_lines_kept kv)
qed

lemma dict_set_new: "k \<notin> fst ` set d \<Longrightarrow> dict_set d k v = d @ [(k, v)]"
  by (induction d) auto

lemma parse_stripped_lines:
  assumes "\<forall>(k, v) \<in> set d. clean k \<and> clean v" "distinct (map fst (acc @ d))"
  shows "parse_lines (map stripped_line d) acc = Inr (acc @ d)"
  using assms
proof (induction d arbitrary: acc)
  case Nil
  then show ?case by simp
next
  case (Cons kv d)
  obtain k v where kv: "kv = (k, v)" by (cases kv)
  have c: "clean k" "clean v" using Cons.prems(1) kv by simp_all
  have new: "k \<notin> fst ` set acc" using Cons.prems(2) kv by auto
  have "parse_lines (map stripped_line (kv # d)) acc
        = parse_lines (map stripped_line d) (dict_set acc k v)"
    using parse_line_with_sep[OF stripped_line_has_sep, of kv]
    by (simp add: kv field_name_stripped[OF c(1)] field_value_stripped[OF c])
  also have "\<dots> = parse_lines (map stripped_line d) (acc @ [(k, v)])"
    by (simp add: dict_set_new[OF new])
  also have "\<dots> = Inr ((acc @ [(k, v)]) @ d)"
    using Cons.prems kv by (intro Cons.IH) auto
  finally show ?case by (simp add: kv)
qed

lemma read_written_text:
  assumes "distinct (map fst d)" "\<forall>(k, v) \<in> set d. clean_key k \<and> clean v"
  shows "read_param_text (write_params d) = Inr d"
proof -
  have c: "\<forall>(k, v) \<in> set d. clean k \<and> clean v" using assms(2) by (auto simp: clean_key_def)
  show ?thesis
    unfolding read_param_text_def readlines_written[OF c] param_lines_written[OF assms(2)]
    using parse_stripped_lines[OF c, of "[]"] assms(1) by simp
qed

lemma map_of_dict_set: "map_of (dict_set d k v) = (map_of d)(k \<mapsto> v)"
  by (induction d) auto

section \<open>Files written and read back\<close>

lemma dict_get_dict_set: "dict_get (dict_set d k v) k' = (if k' = k then Some v else dict_get d k')"
  by (simp add: dict_get_def map_of_dict_set)

lemma open_write_read:
  "open_write path text w = (Inr (), w1) \<Longrightarrow> open_read path w1 = Inr text"
  by (auto simp: open_write_def open_read_def dict_get_dict_set split: if_splits)

section \<open>Reading a parameter file\<close>

text \<open>
  Claim C3, amended. For every text file, \<^verbatim>\<open>read_param_file\<close> strips each line,
  discards the empty lines and the lines that begin with \<^verbatim>\<open>#\<close>, and splits each
  remaining line at every \<^verbatim>\<open>=\<close>: the name is the first piece and the value is the
  second piece (the text between the first and the second \<^verbatim>\<open>=\<close>), both stripped;
  entries are assigned in line order. It fails, with IndexError, as soon as a remaining
  line has no \<^verbatim>\<open>=\<close>.
\<close>

theorem read_param_file_fields:
  assumes "open_read path w = Inr text"
  shows "result_dict (read_param_file path w) = read_param_spec text"
  using assms
  by (cases "read_param_spec text")
    (simp_all add: read_param_file_def read_param_text_spec result_dict_def alloc_def)

theorem read_param_file_fields_witness:
  "open_read ''params'' (new_world\<lparr>files := [(''params'',
       ''# comment'' @ [CHR 0x0A, CHR 0x0A] @ '' x = 7 '' @ [CHR 0x0D, CHR 0x0A] @ ''a = b=c'')]\<rparr>)
     = Inr (''# comment'' @ [CHR 0x0A, CHR 0x0A] @ '' x = 7 '' @ [CHR 0x0D, CHR 0x0A] @ ''a = b=c'')
   \<and> result_dict (read_param_file ''params'' (new_world\<lparr>files := [(''params'',
       ''# comment'' @ [CHR 0x0A, CHR 0x0A] @ '' x = 7 '' @ [CHR 0x0D, CHR 0x0A] @ ''a = b=c'')]\<rparr>))
     = Inr [(''x'', ''7''), (''a'', ''b'')]
   \<and> open_read ''params'' (new_world\<lparr>files := [(''params'', ''x = 7'' @ [CHR 0x0A] @ ''y'')]\<rparr>)
     = Inr (''x = 7'' @ [CHR 0x0A] @ ''y'')
   \<and> result_dict (read_param_file ''params''
        (new_world\<lparr>files := [(''params'', ''x = 7'' @ [CHR 0x0A] @ ''y'')]\<rparr>))
     = Inl IndexError"
proof -
  let ?t1 = "''# comment'' @ [CHR 0x0A, CHR 0x0A] @ '' x = 7 '' @ [CHR 0x0D, CHR 0x0A] @ ''a = b=c''"
  let ?t2 = "''x = 7'' @ [CHR 0x0A] @ ''y''"
  have o1: "open_read ''params'' (new_world\<lparr>files := [(''params'', ?t1)]\<rparr>) = Inr ?t1"
    by (simp add: open_read_def new_world_def dict_get_def)
  have o2: "open_read ''params'' (new_world\<lparr>files := [(''params'', ?t2)]\<rparr>) = Inr ?t2"
    by (simp add: open_read_def new_world_def dict_get_def)
  have s1: "read_param_spec ?t1 = Inr [(''x'', ''7''), (''a'', ''b'')]"
    by (simp add: read_param_spec_def readlines_def strip_def lstrip_def rstrip_def is_space_def
        field_name_def field_value_def)
  have s2: "read_param_spec ?t2 = Inl IndexError"
    by (simp add: read_param_spec_def readlines_def strip_def lstrip_def rstrip_def is_space_def
        field_name_def field_value_def)
  show ?thesis
    using read_param_file_fields[OF o1] read_param_file_fields[OF o2] o1 o2 s1 s2
    by (simp only: simp_thms)
qed

text \<open>
  The claim as it was stated, splitting at the first \<^verbatim>\<open>=\<close> only, fails: the line
  \<^verbatim>\<open>a = b=c\<close> gives the value \<^verbatim>\<open>b\<close>.
\<close>

theorem read_param_file_first_separator_counterexample:
  "result_dict (read_param_file ''params'' (new_world\<lparr>files := [(''params'', ''a = b=c'')]\<rparr>))
     = Inr [(''a'', ''b'')]
   \<and> result_dict (read_param_file ''params'' (new_world\<lparr>files := [(''params'', ''a = b=c'')]\<rparr>))
     \<noteq> Inr [(''a'', ''b=c'')]"
  by (simp add: result_dict_def read_param_file_def open_read_def new_world_def dict_get_def
      alloc_def read_param_text_def param_lines_def readlines_def strip_def lstrip_def rstrip_def
      is_space_def startswith_hash_def)

section \<open>The round trip through a parameter file\<close>

text \<open>
  Claim C4, amended. For every parameter mapping whose keys and values have no
  whitespace at either end, no \<^verbatim>\<open>=\<close> and no line break, and whose keys do not begin
  with \<^verbatim>\<open>#\<close>: writing it in the format of \<^verbatim>\<open>dump_parameter_file\<close> and reading
  the file with \<^verbatim>\<open>read_param_file\<close> gives the same mapping, in the same order.
\<close>

theorem param_file_round_trip:
  assumes "distinct (map fst d)"
    and "\<forall>(k, v) \<in> set d. clean_key k \<and> clean v"
    and "open_write path (write_params d) w = (Inr (), w1)"
  shows "result_dict (read_param_file path w1) = Inr d"
  using open_write_read[OF assms(3)] read_written_text[OF assms(1,2)]
  by (simp add: read_param_file_def result_dict_def alloc_def)

theorem param_file_round_trip_witness:
  "distinct (map fst [(''days'', ''30''), (''fips'', ''42065''), ('''', '''')])
   \<and> clean_key ''days'' \<and> clean ''30'' \<and> clean_key ''fips'' \<and> clean ''42065''
   \<and> clean_key '''' \<and> clean ''''
   \<and> open_write ''out'' (write_params [(''days'', ''30''), (''fips'', ''42065''), ('''', '''')]) new_world
       = (Inr (), new_world\<lparr>files := [(''out'',
            write_params [(''days'', ''30''), (''fips'', ''42065''), ('''', '''')])]\<rparr>)
   \<and> result_dict (read_param_file ''out'' (new_world\<lparr>files := [(''out'',
            write_params [(''days'', ''30''), (''fips'', ''42065''), ('''', '''')])]\<rparr>))
       = Inr [(''days'', ''30''), (''fips'', ''42065''), ('''', '''')]"
proof -
  let ?d = "[(''days'', ''30''), (''fips'', ''42065''), ('''', '''')]"
  have 1: "distinct (map fst ?d)" by simp
  have 2: "\<forall>(k, v) \<in> set ?d. clean_key k \<and> clean v"
    by (simp add: clean_key_def clean_def startswith_hash_def is_space_def)
  have 3: "open_write ''out'' (write_params ?d) new_world
           = (Inr (), new_world\<lparr>files := [(''out'', write_params ?d)]\<rparr>)"
    by (simp add: open_write_def new_world_def dirname_def)
  from param_file_round_trip[OF 1 2 3] 1 2 3 show ?thesis by simp
qed

text \<open>
  A condition on the keys alone is not enough: a value with an \<^verbatim>\<open>=\<close> is cut, a value
  with a leading space loses it.
\<close>

theorem param_file_round_trip_counterexample:
  "clean_key ''a''
   \<and> result_dict (read_param_file ''out''
        (snd (open_write ''out'' (write_params [(''a'', ''b=c'')]) new_world))) \<noteq> Inr [(''a'', ''b=c'')]
   \<and> result_dict (read_param_file ''out''
        (snd (open_write ''out'' (write_params [(''a'', '' b'')]) new_world))) \<noteq> Inr [(''a'', '' b'')]"
  by (simp add: result_dict_def read_param_file_def open_read_def open_write_def new_world_def
      dict_get_def dirname_def write_params_def clean_key_def clean_def
      alloc_def read_param_text_def param_lines_def readlines_def strip_def lstrip_def rstrip_def
      is_space_def startswith_hash_def)

section \<open>Dicts: keys, updates, lookups\<close>

lemma dict_set_keys:
  "map fst (dict_set d k v) = (if k \<in> set (map fst d) then map fst d else map fst d @ [k])"
  by (induction d) force+

lemma dict_set_distinct: "distinct (map fst d) \<Longrightarrow> distinct (map fst (dict_set d k v))"
  by (simp add: dict_set_keys)

lemma parse_lines_distinct:
  "parse_lines ls d = Inr d' \<Longrightarrow> distinct (map fst d) \<Longrightarrow> distinct (map fst d')"
proof (induction ls arbitrary: d)
  case Nil
  then show ?case by simp
next
  case (Cons l ls)
  then show ?case
    by (auto split: list.splits intro: dict_set_distinct)
qed

lemma read_param_text_distinct: "read_param_text text = Inr d \<Longrightarrow> distinct (map fst d)"
  unfolding read_param_text_def by (erule parse_lines_distinct) simp

lemma dict_get_dict_update:
  "distinct (map fst e) \<Longrightarrow>
   dict_get (dict_update d e) k = (case dict_get e k of Some v \<Rightarrow> Some v | None \<Rightarrow> dict_get d k)"
proof (induction e arbitrary: d)
  case Nil
  then show ?case by (simp add: dict_update_def dict_get_def)
next
  case (Cons kv e)
  obtain k' v' where kv: "kv = (k', v')" by (cases kv)
  have d: "distinct (map fst e)" and n: "k' \<notin> fst ` set e" using Cons.prems kv by auto
  have u: "dict_update d (kv # e) = dict_update (dict_set d k' v') e"
    by (simp add: dict_update_def kv)
  have m: "map_of e k' = None" using n by (simp add: map_of_eq_None_iff)
  show ?case
    unfolding u Cons.IH[OF d]
    using m by (auto simp: kv map_of_dict_set dict_get_def split: option.splits)
qed

lemma read_param_file_Inr:
  assumes "read_param_file path w = (Inr b, w')"
  shows "\<exists>text d. open_read path w = Inr text \<and> read_param_text text = Inr d
           \<and> b = next_addr w
           \<and> w' = w\<lparr>heap := (heap w)(next_addr w := d), next_addr := Suc (next_addr w)\<rparr>"
  using assms by (auto simp: read_param_file_def alloc_def split: sum.splits)

lemma read_param_file_Inl: "read_param_file path w = (Inl e, w') \<Longrightarrow> w' = w"
  by (auto simp: read_param_file_def alloc_def split: sum.splits)

lemma get_default_params_addr:
  assumes "get_default_params w = (Inr p, w1)"
  shows "p < next_addr w1 \<and> next_addr w \<le> p"
proof (cases "default_params w")
  case None
  with assms show ?thesis
    by (auto simp: get_default_params_def Let_def alloc_def
        split: if_splits prod.splits sum.splits dest!: read_param_file_Inr)
next
  case (Some c)
  with assms show ?thesis by (auto simp: get_default_params_def alloc_def)
qed

section \<open>The layers of \<^verbatim>\<open>dump_parameter_file\<close>\<close>

text \<open>
  Claim C5. Whenever \<^verbatim>\<open>dump_parameter_file\<close> returns, the file it wrote holds the
  merged mapping: the defaults (what \<^verbatim>\<open>get_default_params\<close> returned), updated with
  the base file's mapping, updated with the sampled overlay; so every key has the value
  of the highest layer that contains it (defaults < base < sampled), and a key absent from
  the later layers keeps its earlier value.
\<close>

theorem dump_parameter_file_layers:
  assumes "dump_parameter_file path a sampled w = (Inr (), w')"
    and "distinct (map fst sampled)"
  shows "\<exists>defaults base merged.
           result_dict (get_default_params w) = Inr defaults
         \<and> result_dict (read_param_file (params a) (snd (get_default_params w))) = Inr base
         \<and> merged = dict_update (dict_update defaults base) sampled
         \<and> dict_get (files w') path = Some (write_params merged)
         \<and> (\<forall>k. dict_get merged k = layered defaults base sampled k)"
proof -
  from assms(1) obtain p w1 where g: "get_default_params w = (Inr p, w1)"
    by (auto simp: dump_parameter_file_def split: prod.splits sum.splits)
  from assms(1) g obtain b w2 where r: "read_param_file (params a) w1 = (Inr b, w2)"
    by (auto simp: dump_parameter_file_def split: prod.splits sum.splits)
  define merged where "merged = dict_update (dict_update (heap w1 p) (heap w2 b)) sampled"
  from read_param_file_Inr[OF r] obtain content d where
    t: "read_param_text content = Inr d" and b: "b = next_addr w1"
    and w2: "w2 = w1\<lparr>heap := (heap w1)(next_addr w1 := d), next_addr := Suc (next_addr w1)\<rparr>"
    by blast
  have pb: "p \<noteq> b" using get_default_params_addr[OF g] b by simp
  have hp: "heap w2 p = heap w1 p" using pb b w2 by simp
  have hb: "heap w2 b = d" using b w2 by simp
  have db: "distinct (map fst (heap w2 b))" using read_param_text_distinct[OF t] hb by simp
  have ow: "open_write path (write_params merged)
              (dict_update_at p sampled (dict_update_at p (heap w2 b) w2)) = (Inr (), w')"
    using assms(1) g r hp by (simp add: dump_parameter_file_def Let_def dict_update_at_def merged_def)
  have f: "dict_get (files w') path = Some (write_params merged)"
    using open_write_read[OF ow] by (auto simp: open_read_def split: option.splits if_splits)
  have l: "\<forall>k. dict_get merged k = layered (heap w1 p) (heap w2 b) sampled k"
    by (simp add: merged_def layered_def dict_get_dict_update[OF assms(2)]
        dict_get_dict_update[OF db] split: option.splits)
  show ?thesis
    using g r f l by (auto simp: result_dict_def merged_def)
qed

text \<open>
  The example of the claim: defaults \<open>{a: 1, b: 2}\<close>, base \<open>{b: 3, c: 4}\<close>, overlay
  \<open>{c: 5}\<close> are written as \<open>{a: 1, b: 3, c: 5}\<close>.
\<close>

theorem dump_parameter_file_layers_witness:
  "fst (dump_parameter_file ''out'' (default_config\<lparr>params := ''base''\<rparr>) [(''c'', ''5'')]
         (new_world\<lparr>files := [(''defaults'', ''a = 1'' @ [CHR 0x0A] @ ''b = 2'' @ [CHR 0x0A]),
                                 (''base'', ''b = 3'' @ [CHR 0x0A] @ ''c = 4'' @ [CHR 0x0A])]\<rparr>)) = Inr ()
   \<and> distinct (map fst [(''c'', ''5'')])
   \<and> dict_get (files (snd (dump_parameter_file ''out'' (default_config\<lparr>params := ''base''\<rparr>)
         [(''c'', ''5'')]
         (new_world\<lparr>files := [(''defaults'', ''a = 1'' @ [CHR 0x0A] @ ''b = 2'' @ [CHR 0x0A]),
                                 (''base'', ''b = 3'' @ [CHR 0x0A] @ ''c = 4'' @ [CHR 0x0A])]\<rparr>)))) ''out''
       = Some (write_params [(''a'', ''1''), (''b'', ''3''), (''c'', ''5'')])
   \<and> layered [(''a'', ''1''), (''b'', ''2'')] [(''b'', ''3''), (''c'', ''4'')] [(''c'', ''5'')] ''b''
       = Some ''3''"
proof -
  let ?w = "new_world\<lparr>files := [(''defaults'', ''a = 1'' @ [CHR 0x0A] @ ''b = 2'' @ [CHR 0x0A]),
                                 (''base'', ''b = 3'' @ [CHR 0x0A] @ ''c = 4'' @ [CHR 0x0A])]\<rparr>"
  let ?a = "default_config\<lparr>params := ''base''\<rparr>"
  let ?r = "dump_parameter_file ''out'' ?a [(''c'', ''5'')] ?w"
  have g: "result_dict (get_default_params ?w) = Inr [(''a'', ''1''), (''b'', ''2'')]"
    by (simp add: result_dict_def get_default_params_def new_world_def path_exists_def Let_def
        read_param_file_def open_read_def dict_get_def alloc_def
        read_param_text_def param_lines_def readlines_def strip_def lstrip_def rstrip_def
        is_space_def startswith_hash_def)
  have b: "result_dict (read_param_file (params ?a) (snd (get_default_params ?w)))
             = Inr [(''b'', ''3''), (''c'', ''4'')]"
    by (simp add: result_dict_def get_default_params_def new_world_def path_exists_def Let_def
        read_param_file_def open_read_def dict_get_def alloc_def default_config_def
        read_param_text_def param_lines_def readlines_def strip_def lstrip_def rstrip_def
        is_space_def startswith_hash_def)
  have 1: "fst ?r = Inr ()"
    by (simp add: dump_parameter_file_def get_default_params_def new_world_def path_exists_def Let_def
        read_param_file_def open_read_def dict_get_def alloc_def default_config_def
        dict_update_at_def open_write_def dirname_def
        read_param_text_def param_lines_def readlines_def strip_def lstrip_def rstrip_def
        is_space_def startswith_hash_def)
  then have e: "?r = (Inr (), snd ?r)" by (simp add: prod_eq_iff)
  have 2: "distinct (map fst [(''c'', ''5'')])" by simp
  from dump_parameter_file_layers[OF e 2] g b
  have "dict_get (files (snd ?r)) ''out''
          = Some (write_params (dict_update (dict_update [(''a'', ''1''), (''b'', ''2'')]
                    [(''b'', ''3''), (''c'', ''4'')]) [(''c'', ''5'')]))"
    by auto
  then have 3: "dict_get (files (snd ?r)) ''out''
          = Some (write_params [(''a'', ''1''), (''b'', ''3''), (''c'', ''5'')])"
    by (simp add: dict_update_def)
  have 4: "layered [(''a'', ''1''), (''b'', ''2'')] [(''b'', ''3''), (''c'', ''4'')] [(''c'', ''5'')] ''b''
       = Some ''3''"
    by (simp add: layered_def dict_get_def)
  from 1 2 3 4 show ?thesis by (simp only: simp_thms)
qed

section \<open>The defaults cache\<close>

lemma first_call:
  assumes "default_params w = None" "get_default_params w = (Inr a0, w1)"
  shows "\<exists>c. cache_holds c (heap w1 a0) [a0] w1"
  using assms
  by (auto simp: get_default_params_def Let_def alloc_def cache_holds_def
      split: if_splits prod.splits sum.splits dest!: read_param_file_Inr)

lemma later_call:
  assumes "cache_holds c d0 returned w"
  shows "\<exists>a w'. get_default_params w = (Inr a, w') \<and> heap w' a = d0 \<and> a \<noteq> c
           \<and> a \<notin> set returned \<and> cache_holds c d0 (returned @ [a]) w'"
  using assms
  by (auto simp: get_default_params_def alloc_def cache_holds_def list_all_iff)

lemma mutation_keeps_cache:
  assumes "cache_holds c d0 returned w" "i < length returned"
  shows "cache_holds c d0 returned (w\<lparr>heap := (heap w)(returned ! i := d)\<rparr>)"
proof -
  have "returned ! i \<noteq> c" using assms by (auto simp: cache_holds_def)
  then show ?thesis using assms(1) by (simp add: cache_holds_def)
qed

lemma files_keep_cache:
  "cache_holds c d0 returned w \<Longrightarrow> cache_holds c d0 returned (w\<lparr>files := fs\<rparr>)"
  by (simp add: cache_holds_def)

lemma client_cache:
  assumes "cache_holds c d0 returned w"
  shows "list_all (\<lambda>r. \<exists>a. r = Inr (a, d0) \<and> a \<noteq> c \<and> a \<notin> set returned) (fst (client acts returned w))
       \<and> default_params (snd (client acts returned w)) = Some c
       \<and> heap (snd (client acts returned w)) c = d0"
  using assms
proof (induction acts arbitrary: returned w)
  case Nil
  then show ?case by (simp add: cache_holds_def)
next
  case (Cons act acts)
  show ?case
  proof (cases act)
    case Call
    from later_call[OF Cons.prems] obtain a w' where
      g: "get_default_params w = (Inr a, w')" and h: "heap w' a = d0" and ac: "a \<noteq> c"
      and ar: "a \<notin> set returned" and inv: "cache_holds c d0 (returned @ [a]) w'"
      by blast
    from Cons.IH[OF inv] have
      ih: "list_all (\<lambda>r. \<exists>a'. r = Inr (a', d0) \<and> a' \<noteq> c \<and> a' \<notin> set (returned @ [a]))
             (fst (client acts (returned @ [a]) w'))"
        "default_params (snd (client acts (returned @ [a]) w')) = Some c"
        "heap (snd (client acts (returned @ [a]) w')) c = d0"
      by simp_all
    have "list_all (\<lambda>r. \<exists>a'. r = Inr (a', d0) \<and> a' \<noteq> c \<and> a' \<notin> set returned)
             (fst (client acts (returned @ [a]) w'))"
      using ih(1) by (auto simp: list_all_iff)
    then show ?thesis
      using Call g h ac ar ih(2,3) by (simp add: case_prod_beta)
  next
    case (Mutate i d)
    show ?thesis
    proof (cases "i < length returned")
      case True
      from Cons.IH[OF mutation_keeps_cache[OF Cons.prems True, of d]] Mutate True
      show ?thesis by simp
    next
      case False
      from Cons.IH[OF Cons.prems] Mutate False show ?thesis by simp
    qed
  next
    case (SetFiles fs)
    from Cons.IH[OF files_keep_cache[OF Cons.prems, of fs]] SetFiles show ?thesis by simp
  qed
qed

text \<open>
  Claim C8. The first successful call of \<^verbatim>\<open>get_default_params\<close> (the cache is empty
  before it) fills the cache. Whatever the callers do afterwards (more calls, changes to
  any mapping a call returned, changes to the files), every later call returns a new
  object, different from the cache's and from the first result, that holds the mapping
  the first call returned; the cache keeps its object, and that object its contents.
\<close>

theorem defaults_cache_populated_once:
  assumes "default_params w = None" and "get_default_params w = (Inr a0, w1)"
  shows "\<exists>c. default_params w1 = Some c
           \<and> (\<forall>r \<in> set (fst (client acts [a0] w1)).
                 \<exists>a. r = Inr (a, heap w1 a0) \<and> a \<noteq> c \<and> a \<noteq> a0)
           \<and> default_params (snd (client acts [a0] w1)) = Some c
           \<and> heap (snd (client acts [a0] w1)) c = heap w1 a0"
proof -
  from first_call[OF assms] obtain c where c: "cache_holds c (heap w1 a0) [a0] w1" by blast
  from client_cache[OF c, of acts] c show ?thesis
    by (auto simp: list_all_iff cache_holds_def)
qed

theorem defaults_cache_populated_once_witness:
  "default_params (new_world\<lparr>files := [(''defaults'', ''days = 30'')]\<rparr>) = None
   \<and> fst (get_default_params (new_world\<lparr>files := [(''defaults'', ''days = 30'')]\<rparr>)) = Inr 0
   \<and> fst (client [Mutate 0 [(''days'', ''99'')], Call, Mutate 1 [], SetFiles [], Call] [0]
          (snd (get_default_params (new_world\<lparr>files := [(''defaults'', ''days = 30'')]\<rparr>))))
       = [Inr (2, [(''days'', ''30'')]), Inr (3, [(''days'', ''30'')])]
   \<and> default_params (snd (client [Mutate 0 [(''days'', ''99'')], Call, Mutate 1 [], SetFiles [], Call] [0]
          (snd (get_default_params (new_world\<lparr>files := [(''defaults'', ''days = 30'')]\<rparr>)))))
       = Some 1"
proof -
  let ?w = "new_world\<lparr>files := [(''defaults'', ''days = 30'')]\<rparr>"
  let ?acts = "[Mutate 0 [(''days'', ''99'')], Call, Mutate 1 [], SetFiles [], Call]"
  have 1: "default_params ?w = None" by (simp add: new_world_def)
  have g: "get_default_params ?w
           = (Inr 0, new_world\<lparr>files := [(''defaults'', ''days = 30'')],
                       heap := (\<lambda>a. [])(0 := [(''days'', ''30'')], Suc 0 := [(''days'', ''30'')]),
                       next_addr := 2, default_params := Some (Suc 0)\<rparr>)"
    by (simp add: get_default_params_def new_world_def path_exists_def Let_def
        read_param_file_def open_read_def dict_get_def alloc_def
        read_param_text_def param_lines_def readlines_def strip_def lstrip_def rstrip_def
        is_space_def startswith_hash_def)
  have 2: "fst (get_default_params ?w) = Inr 0" by (simp add: g)
  have e: "get_default_params ?w = (Inr 0, snd (get_default_params ?w))" by (simp add: g)
  have 3: "fst (client ?acts [0] (snd (get_default_params ?w)))
           = [Inr (2, [(''days'', ''30'')]), Inr (3, [(''days'', ''30'')])]"
    unfolding g snd_conv by (simp add: get_default_params_def new_world_def alloc_def)
  have c: "default_params (snd (get_default_params ?w)) = Some 1"
    unfolding g snd_conv by (simp add: new_world_def)
  from defaults_cache_populated_once[OF 1 e, of ?acts] c
  have 4: "default_params (snd (client ?acts [0] (snd (get_default_params ?w)))) = Some 1"
    by auto
  from 1 2 3 4 show ?thesis by (simp only: simp_thms)
qed

section \<open>The day count of \<^verbatim>\<open>init\<close>\<close>

lemma resolve_days_result:
  assumes "resolve_days a0 b w = (Inr a, w')"
  shows "case days a0 of
           Some d \<Rightarrow> days a = Some d
         | None \<Rightarrow>
             (case dict_get (heap w b) ''days'' of
                Some s \<Rightarrow> \<exists>n. py_int s = Inr n \<and> days a = Some n
              | None \<Rightarrow>
                  \<exists>defaults s n. result_dict (get_default_params w) = Inr defaults
                    \<and> dict_get defaults ''days'' = Some s \<and> py_int s = Inr n \<and> days a = Some n)"
  using assms
  by (auto simp: resolve_days_def result_dict_def split: option.splits sum.splits prod.splits)

lemma init_out_dir_keeps:
  assumes "init_out_dir ext config w = (Inr (out, a1), w1)"
  shows "days a1 = days config \<and> params_base a1 = params_base config \<and> files w1 = files w
         \<and> default_params w1 = default_params w \<and> FRED_HOME w1 = FRED_HOME w"
  using assms
  by (auto simp: init_out_dir_def mkdir_def Let_def split: option.splits if_splits prod.splits sum.splits)

lemma mkdir_keeps:
  assumes "mkdir p ok w = (Inr u, w1)"
  shows "files w1 = files w \<and> default_params w1 = default_params w \<and> FRED_HOME w1 = FRED_HOME w"
  using assms by (auto simp: mkdir_def split: if_splits)

lemma read_param_file_same_files:
  assumes "read_param_file p w2 = (Inr b, w3)" "files w2 = files w"
  shows "result_dict (read_param_file p w) = Inr (heap w3 b) \<and> files w3 = files w
         \<and> default_params w3 = default_params w2 \<and> FRED_HOME w3 = FRED_HOME w2"
  using assms
  by (auto simp: read_param_file_def open_read_def result_dict_def alloc_def
      split: option.splits sum.splits if_splits)

text \<open>
  Claim C6. Whenever \<^verbatim>\<open>init\<close> returns: a configured \<^verbatim>\<open>days\<close> is the day count,
  as it is; otherwise, if the base parameter file has a \<^verbatim>\<open>days\<close> key, the day count is
  that value read as an integer; otherwise it is the \<^verbatim>\<open>days\<close> value of the mapping
  that \<^verbatim>\<open>get_default_params\<close> returns (in a state with the files and the cache of the
  start), read as an integer.
\<close>

theorem init_resolves_days:
  assumes "init ext config seed w = (Inr a, w')"
  shows "\<exists>base. result_dict (read_param_file (params_base config) w) = Inr base
         \<and> (case days config of
              Some d \<Rightarrow> days a = Some d
            | None \<Rightarrow>
                (case dict_get base ''days'' of
                   Some s \<Rightarrow> \<exists>n. py_int s = Inr n \<and> days a = Some n
                 | None \<Rightarrow>
                     \<exists>w3 defaults s n. files w3 = files w \<and> default_params w3 = default_params w
                       \<and> FRED_HOME w3 = FRED_HOME w
                       \<and> result_dict (get_default_params w3) = Inr defaults
                       \<and> dict_get defaults ''days'' = Some s \<and> py_int s = Inr n
                       \<and> days a = Some n))"
proof -
  from assms obtain out a1 w1 where 1: "init_out_dir ext config w = (Inr (out, a1), w1)"
    by (auto simp: init_def split: prod.splits sum.splits)
  from assms 1 obtain u w2 where 2: "mkdir out (debug a1) w1 = (Inr u, w2)"
    by (auto simp: init_def split: prod.splits sum.splits)
  from assms 1 2 obtain b w3 where 3: "read_param_file (params_base a1) w2 = (Inr b, w3)"
    by (auto simp: init_def split: prod.splits sum.splits)
  define w3' where "w3' = dict_set_at b ''fips'' (str_int (fips a1)) w3"
  from assms 1 2 3 obtain a2 w4 where
    4: "resolve_days (a1\<lparr>out_dir := out\<rparr>) b w3' = (Inr a2, w4)"
    by (auto simp: init_def w3'_def split: prod.splits sum.splits)
  from assms 1 2 3 4 have 5: "days a = days a2"
    by (auto simp: init_def w3'_def Let_def split: prod.splits sum.splits)
  note k1 = init_out_dir_keeps[OF 1] and k2 = mkdir_keeps[OF 2]
  have f2: "files w2 = files w" using k1 k2 by simp
  note k3 = read_param_file_same_files[OF 3 f2]
  have base: "result_dict (read_param_file (params_base config) w) = Inr (heap w3 b)"
    using k3 k1 by simp
  have lk: "dict_get (heap w3' b) ''days'' = dict_get (heap w3 b) ''days''"
    by (simp add: w3'_def dict_set_at_def dict_get_dict_set)
  have st: "files w3' = files w \<and> default_params w3' = default_params w \<and> FRED_HOME w3' = FRED_HOME w"
    using k1 k2 k3 by (simp add: w3'_def dict_set_at_def)
  from resolve_days_result[OF 4] k1 lk 5 st base show ?thesis
    by (auto split: option.splits)
qed

text \<open>The definitions that evaluating an example unfolds.\<close>

lemmas eval_defs =
  init_def init_out_dir_def mkdir_def ancestors_def resolve_days_def dict_set_at_def
  get_default_params_def path_exists_def read_param_file_def open_read_def open_write_def
  dirname_def path_join_def alloc_def dict_get_def write_params_def
  read_param_text_def param_lines_def readlines_def strip_def lstrip_def rstrip_def
  is_space_def startswith_hash_def py_int_def is_digit_def str_int_def digit_char_def
  new_world_def default_config_def example_externals_def Let_def

text \<open>One run of \<^verbatim>\<open>init\<close> for each of the three cases.\<close>

theorem init_resolves_days_witness:
  "(\<exists>a w'. init example_externals (default_config\<lparr>days := Some 7\<rparr>) 0
       (new_world\<lparr>files := [(''/fred/params'', ''days = 30'')]\<rparr>) = (Inr a, w')
       \<and> days a = Some 7)
   \<and> (\<exists>a w'. init example_externals default_config 0
       (new_world\<lparr>files := [(''/fred/params'', ''days = 30'')]\<rparr>) = (Inr a, w')
       \<and> days a = Some 30)
   \<and> (\<exists>a w'. init example_externals default_config 0
       (new_world\<lparr>files := [(''/fred/params'', ''x = 1''), (''defaults'', ''days = 100'')]\<rparr>)
         = (Inr a, w')
       \<and> days a = Some 100)"
proof -
  let ?wa = "new_world\<lparr>files := [(''/fred/params'', ''days = 30'')]\<rparr>"
  let ?wc = "new_world\<lparr>files := [(''/fred/params'', ''x = 1''), (''defaults'', ''days = 100'')]\<rparr>"
  have "\<exists>a w'. init example_externals (default_config\<lparr>days := Some 7\<rparr>) 0 ?wa = (Inr a, w')"
    by (simp add: eval_defs)
  then obtain a1 w1 where
    e1: "init example_externals (default_config\<lparr>days := Some 7\<rparr>) 0 ?wa = (Inr a1, w1)"
    by blast
  from init_resolves_days[OF e1] have d1: "days a1 = Some 7" by auto
  have "\<exists>a w'. init example_externals default_config 0 ?wa = (Inr a, w')"
    by (simp add: eval_defs)
  then obtain a2 w2 where e2: "init example_externals default_config 0 ?wa = (Inr a2, w2)"
    by blast
  have b2: "result_dict (read_param_file (params_base default_config) ?wa) = Inr [(''days'', ''30'')]"
    by (simp add: result_dict_def eval_defs)
  have p2: "py_int ''30'' = Inr 30" by (simp add: eval_defs)
  from init_resolves_days[OF e2] b2 p2 have d2: "days a2 = Some 30"
    by (auto simp: dict_get_def default_config_def)
  have "\<exists>a w'. init example_externals default_config 0 ?wc = (Inr a, w')"
    by (simp add: eval_defs)
  then obtain a3 w3 where e3: "init example_externals default_config 0 ?wc = (Inr a3, w3)"
    by blast
  have b3: "result_dict (read_param_file (params_base default_config) ?wc) = Inr [(''x'', ''1'')]"
    by (simp add: result_dict_def eval_defs)
  have g3: "result_dict (get_default_params v) = Inr [(''days'', ''100'')]"
    if "files v = files ?wc" "default_params v = default_params ?wc" for v
    using that by (simp add: result_dict_def eval_defs)
  have p3: "py_int ''100'' = Inr 100" by (simp add: eval_defs)
  from init_resolves_days[OF e3] b3 have
    "\<exists>v defaults s n. files v = files ?wc \<and> default_params v = default_params ?wc
       \<and> result_dict (get_default_params v) = Inr defaults
       \<and> dict_get defaults ''days'' = Some s \<and> py_int s = Inr n \<and> days a3 = Some n"
    by (auto simp: dict_get_def default_config_def)
  then obtain v defaults s n where
    v: "files v = files ?wc" "default_params v = default_params ?wc"
    and r: "result_dict (get_default_params v) = Inr defaults"
    and l: "dict_get defaults ''days'' = Some s" "py_int s = Inr n" "days a3 = Some n"
    by blast
  from g3[OF v] r have "defaults = [(''days'', ''100'')]" by simp
  with l p3 have d3: "days a3 = Some 100" by (simp add: dict_get_def)
  from e1 d1 e2 d2 e3 d3 show ?thesis by blast
qed

section \<open>What the functions print and write\<close>

lemma read_param_file_stdout: "read_param_file p w = (r, w') \<Longrightarrow> stdout w' = stdout w"
  by (auto simp: read_param_file_def alloc_def split: sum.splits)

lemma get_default_params_stdout: "get_default_params w = (r, w') \<Longrightarrow> stdout w' = stdout w"
  by (auto simp: get_default_params_def Let_def alloc_def
      split: option.splits if_splits prod.splits sum.splits dest: read_param_file_stdout)

lemma open_write_stdout: "stdout (snd (open_write p content w)) = stdout w"
  by (simp add: open_write_def)

lemma zipdir_stdout: "stdout (snd (zipdir p d w)) = stdout w"
  by (simp add: zipdir_def)

lemma dump_parameter_file_stdout: "stdout (snd (dump_parameter_file p a sp w)) = stdout w"
proof -
  obtain r1 w1 where g: "get_default_params w = (r1, w1)" by (cases "get_default_params w")
  obtain r2 w2 where r: "read_param_file (params a) w1 = (r2, w2)"
    by (cases "read_param_file (params a) w1")
  have 1: "stdout w1 = stdout w" using get_default_params_stdout[OF g] .
  have 2: "stdout w2 = stdout w1" using read_param_file_stdout[OF r] .
  show ?thesis
    using g r 1 2
    by (simp add: dump_parameter_file_def Let_def open_write_stdout dict_update_at_def
        split: sum.splits)
qed

lemma dump_parameter_file_writes:
  assumes "dump_parameter_file p a sp w = (Inr u, w')"
  shows "dict_get (files w') p \<noteq> None"
proof -
  from assms obtain content v where "open_write p content v = (Inr (), w')"
    by (auto simp: dump_parameter_file_def Let_def split: prod.splits sum.splits)
  from open_write_read[OF this] show ?thesis
    by (auto simp: open_read_def split: option.splits if_splits)
qed

lemma dump_parameter_file_stdout':
  "dump_parameter_file p a sp w = (r, w') \<Longrightarrow> stdout w' = stdout w"
  using dump_parameter_file_stdout[of p a sp w] by simp

lemma write_trace_params_stdout:
  assumes "write_trace_params ext a idx t w = (r, w')"
  shows "stdout w' = stdout w"
proof (cases "dict_get (named_variables t) ''shelter_in_place_duration_mean''")
  case None
  then show ?thesis using assms by (simp add: write_trace_params_def)
next
  case (Some var)
  define t' where "t' = t\<lparr>named_variables :=
              dict_set (named_variables t) ''shelter_in_place_duration_mean''
                (var\<lparr>val := tensor_int ext (val var)\<rparr>)\<rparr>"
  obtain r1 w1 where d: "dump_parameter_file (path_join (out_dir a) (''params'' @ str_nat idx)) a
                           (sampled_parameters_of ext t') w = (r1, w1)"
    by (cases "dump_parameter_file (path_join (out_dir a) (''params'' @ str_nat idx)) a
                           (sampled_parameters_of ext t') w")
  have "w' = w1"
    using assms d Some unfolding write_trace_params_def t'_def Let_def
    by (cases r1) simp_all
  then show ?thesis using dump_parameter_file_stdout'[OF d] by simp
qed

lemma write_trace_params_writes:
  assumes "write_trace_params ext a idx t w = (Inr t', w1)"
  shows "dict_get (files w1) (path_join (out_dir a) (''params'' @ str_nat idx)) \<noteq> None"
proof (cases "dict_get (named_variables t) ''shelter_in_place_duration_mean''")
  case None
  then show ?thesis using assms by (simp add: write_trace_params_def)
next
  case (Some var)
  define t2 where "t2 = t\<lparr>named_variables :=
              dict_set (named_variables t) ''shelter_in_place_duration_mean''
                (var\<lparr>val := tensor_int ext (val var)\<rparr>)\<rparr>"
  obtain r1 v1 where d: "dump_parameter_file (path_join (out_dir a) (''params'' @ str_nat idx)) a
                           (sampled_parameters_of ext t2) w = (r1, v1)"
    by (cases "dump_parameter_file (path_join (out_dir a) (''params'' @ str_nat idx)) a
                           (sampled_parameters_of ext t2) w")
  have "\<exists>u. r1 = Inr u \<and> v1 = w1"
    using assms d Some unfolding write_trace_params_def t2_def Let_def
    by (cases r1) simp_all
  then show ?thesis using dump_parameter_file_writes d by blast
qed

lemma write_trace_params_weight:
  "write_trace_params ext a idx t w = (Inr t', w1) \<Longrightarrow>
   log_importance_weight t' = log_importance_weight t"
  by (auto simp: write_trace_params_def Let_def split: option.splits prod.splits sum.splits)

section \<open>The loop body of \<^verbatim>\<open>run\<close>: the weight band\<close>

lemmas run_eval_defs =
  write_trace_params_def sampled_parameters_of_def dump_parameter_file_def dict_update_at_def
  dict_update_def run_world_def run_args_def example_trace_def

lemmas double_defs =
  example_np_exp_def literal_0_2_def literal_0_3_def literal_0_5_def literal_0_51_def
  literal_0_7_def literal_0_8_def log_0_2_def log_0_3_def log_0_5_def log_0_51_def log_0_7_def
  log_0_8_def float_le_def

lemma example_write:
  "\<exists>t' w1. write_trace_params example_externals run_args 0 (example_trace lw) run_world = (Inr t', w1)"
  by (simp add: run_eval_defs eval_defs)

lemma below_band: "float_lt x literal_0_2 \<Longrightarrow> \<not> float_lt literal_0_5 x"
  by (cases x) (simp_all add: literal_0_2_def literal_0_5_def)

lemma above_band: "float_lt literal_0_8 x \<Longrightarrow> float_lt literal_0_5 x"
  by (cases x) (simp_all add: literal_0_8_def literal_0_5_def)

lemma inside_band:
  "float_le literal_0_2 x \<and> float_le x literal_0_8 \<or> x = NaN \<Longrightarrow>
   \<not> float_lt x literal_0_2 \<and> \<not> float_lt literal_0_8 x"
  by (cases x) (auto simp: float_le_def literal_0_2_def literal_0_8_def)

text \<open>
  Claim C1, amended. In the loop over the traces, once the parameter file of the trace
  has been written: a weight (the double that the exponential gives for the log-weight)
  inside the band from 0.2 to 0.8, both ends included and as doubles, which holds 0.3,
  0.5, 0.51 and 0.7, fails the assertion, as does nan, and nothing is stored for the
  trace; a weight below 0.2 is stored as 0 and a weight above 0.8 is stored as 1. The
  weight has been printed in every case.
\<close>

theorem weight_band_assertion:
  assumes "write_trace_params ext a idx t w = (Inr t', w1)"
  shows "(float_le literal_0_2 (np_exp ext (log_importance_weight t))
            \<and> float_le (np_exp ext (log_importance_weight t)) literal_0_8
          \<or> np_exp ext (log_importance_weight t) = NaN \<longrightarrow>
            process_trace ext a idx t trace_weights w
              = (Inl AssertionError,
                 print (Likelihood idx (np_exp ext (log_importance_weight t))) w1))
       \<and> (float_lt (np_exp ext (log_importance_weight t)) literal_0_2 \<longrightarrow>
            process_trace ext a idx t trace_weights w
              = (Inr (dict_set trace_weights idx 0),
                 print (Likelihood idx (np_exp ext (log_importance_weight t))) w1))
       \<and> (float_lt literal_0_8 (np_exp ext (log_importance_weight t)) \<longrightarrow>
            process_trace ext a idx t trace_weights w
              = (Inr (dict_set trace_weights idx 1),
                 print (Likelihood idx (np_exp ext (log_importance_weight t))) w1))"
proof -
  let ?x = "np_exp ext (log_importance_weight t)"
  have p: "process_trace ext a idx t trace_weights w
           = (if float_lt ?x literal_0_2 \<or> float_lt literal_0_8 ?x
              then (Inr (dict_set trace_weights idx (if float_lt literal_0_5 ?x then 1 else 0)),
                    print (Likelihood idx ?x) w1)
              else (Inl AssertionError, print (Likelihood idx ?x) w1))"
    using assms write_trace_params_weight[OF assms]
    by (simp add: process_trace_def classify_weight_def Let_def)
  show ?thesis
    unfolding p using below_band[of ?x] above_band[of ?x] inside_band[of ?x] by auto
qed

theorem weight_band_assertion_witness:
  "fst (process_trace example_externals run_args 0 (example_trace log_0_3) [] run_world)
     = Inl AssertionError
   \<and> fst (process_trace example_externals run_args 0 (example_trace log_0_7) [] run_world)
     = Inl AssertionError
   \<and> fst (process_trace example_externals run_args 0 (example_trace log_0_2) [] run_world)
     = Inl AssertionError
   \<and> fst (process_trace example_externals run_args 0 (example_trace log_0_8) [] run_world)
     = Inl AssertionError
   \<and> fst (process_trace example_externals run_args 0 (example_trace (Fin (- 5))) [] run_world)
     = Inr [(0, 0)]
   \<and> fst (process_trace example_externals run_args 0 (example_trace (Fin 0)) [] run_world)
     = Inr [(0, 1)]"
proof -
  have w: "np_exp example_externals (log_importance_weight (example_trace lw)) = example_np_exp lw"
    for lw by (simp add: example_trace_def example_externals_def)
  have p: "fst (process_trace example_externals run_args 0 (example_trace lw) [] run_world)
           = (if float_le literal_0_2 (example_np_exp lw) \<and> float_le (example_np_exp lw) literal_0_8
                 \<or> example_np_exp lw = NaN
              then Inl AssertionError
              else if float_lt (example_np_exp lw) literal_0_2 then Inr [(0, 0)] else Inr [(0, 1)])"
    for lw
  proof -
    from example_write[of lw] obtain t' w1 where
      e: "write_trace_params example_externals run_args 0 (example_trace lw) run_world = (Inr t', w1)"
      by blast
    have c: "float_le literal_0_2 x \<and> float_le x literal_0_8 \<or> x = NaN
             \<or> float_lt x literal_0_2 \<or> float_lt literal_0_8 x" for x
      by (cases x) (auto simp: float_le_def literal_0_2_def literal_0_8_def)
    from weight_band_assertion[OF e, of "[]"] c[of "example_np_exp lw"] inside_band[of "example_np_exp lw"]
    show ?thesis by (auto simp: w)
  qed
  show ?thesis unfolding p by (simp add: double_defs)
qed

text \<open>
  The weights 0.5 and 0.51 are never classified: both are in the band, and the assertion
  fails for them.
\<close>

theorem weight_half_classified_counterexample:
  "np_exp example_externals (log_importance_weight (example_trace log_0_5)) = Fin (1 / 2)
   \<and> fst (process_trace example_externals run_args 0 (example_trace log_0_5) [] run_world)
       = Inl AssertionError
   \<and> np_exp example_externals (log_importance_weight (example_trace log_0_51)) = literal_0_51
   \<and> fst (process_trace example_externals run_args 0 (example_trace log_0_51) [] run_world)
       = Inl AssertionError"
  by (simp add: process_trace_def classify_weight_def run_eval_defs eval_defs double_defs)

section \<open>The loop body of \<^verbatim>\<open>run\<close>: the order of the steps\<close>

text \<open>
  Claim C7, amended. For every trace the steps come in this order: the parameter file of
  the trace is written, then the weight is printed and the assertion checked, then the
  outcome is stored. So a failure of the write ends the body with nothing printed,
  asserted or stored, whatever the weight is; and when the write succeeded, the file is
  there whether the assertion then fails or the outcome is stored.
\<close>

theorem trace_steps_in_order:
  assumes "process_trace ext a idx t trace_weights w = (r, w')"
  shows "case write_trace_params ext a idx t w of
           (Inl e, w1) \<Rightarrow> r = Inl e \<and> w' = w1 \<and> stdout w' = stdout w
         | (Inr t', w1) \<Rightarrow>
             dict_get (files w1) (path_join (out_dir a) (''params'' @ str_nat idx)) \<noteq> None
           \<and> files w' = files w1
           \<and> stdout w' = stdout w @ [Likelihood idx (np_exp ext (log_importance_weight t))]
           \<and> r = (if float_lt (np_exp ext (log_importance_weight t)) literal_0_2
                     \<or> float_lt literal_0_8 (np_exp ext (log_importance_weight t))
                  then Inr (dict_set trace_weights idx
                              (if float_lt literal_0_5 (np_exp ext (log_importance_weight t))
                               then 1 else 0))
                  else Inl AssertionError)"
proof (cases "write_trace_params ext a idx t w")
  case (Pair r1 w1)
  have s: "stdout w1 = stdout w" using write_trace_params_stdout[OF Pair] .
  show ?thesis
  proof (cases r1)
    case (Inl e)
    then show ?thesis using assms Pair s by (auto simp: process_trace_def)
  next
    case (Inr t')
    have e: "write_trace_params ext a idx t w = (Inr t', w1)" using Pair Inr by simp
    show ?thesis
      using assms e s write_trace_params_writes[OF e] write_trace_params_weight[OF e]
      by (auto simp: process_trace_def classify_weight_def Let_def print_def)
  qed
qed

theorem trace_steps_in_order_witness:
  "fst (process_trace example_externals run_args 0 (example_trace (Fin 0)) [] run_world)
     = Inr [(0, 1)]
   \<and> stdout (snd (process_trace example_externals run_args 0 (example_trace (Fin 0)) [] run_world))
       = [Likelihood 0 (Fin 1)]
   \<and> dict_get (files (snd (process_trace example_externals run_args 0 (example_trace (Fin 0)) []
          run_world))) ''out/params0'' \<noteq> None
   \<and> fst (process_trace example_externals run_args 0 (example_trace log_0_8) [] run_world)
     = Inl AssertionError
   \<and> process_trace example_externals (run_args\<lparr>out_dir := ''missing''\<rparr>) 0
        (example_trace log_0_5) [] run_world
       = (Inl (FileNotFoundError ''missing/params0''),
          snd (write_trace_params example_externals (run_args\<lparr>out_dir := ''missing''\<rparr>) 0
                 (example_trace log_0_5) run_world))"
proof -
  let ?p = "process_trace example_externals run_args 0 (example_trace (Fin 0)) [] run_world"
  let ?b = "process_trace example_externals run_args 0 (example_trace log_0_8) [] run_world"
  let ?a = "run_args\<lparr>out_dir := ''missing''\<rparr>"
  let ?q = "process_trace example_externals ?a 0 (example_trace log_0_5) [] run_world"
  have x: "np_exp example_externals (log_importance_weight (example_trace lw)) = example_np_exp lw"
    for lw by (simp add: example_trace_def example_externals_def)
  from example_write[of "Fin 0"] obtain t' w1 where
    e: "write_trace_params example_externals run_args 0 (example_trace (Fin 0)) run_world = (Inr t', w1)"
    by blast
  from example_write[of log_0_8] obtain t8 w8 where
    e8: "write_trace_params example_externals run_args 0 (example_trace log_0_8) run_world = (Inr t8, w8)"
    by blast
  have p: "?p = (fst ?p, snd ?p)" by simp
  have b: "?b = (fst ?b, snd ?b)" by simp
  have f: "files (snd ?p) = files w1" using trace_steps_in_order[OF p] e by simp
  have n: "dict_get (files w1) ''out/params0'' \<noteq> None"
    using trace_steps_in_order[OF p] e by (simp add: run_args_def eval_defs)
  have 1: "fst ?p = Inr [(0, 1)]"
    using trace_steps_in_order[OF p] e by (simp add: x double_defs)
  have 2: "stdout (snd ?p) = [Likelihood 0 (Fin 1)]"
    using trace_steps_in_order[OF p] e by (simp add: x double_defs run_world_def new_world_def)
  have 3: "dict_get (files (snd ?p)) ''out/params0'' \<noteq> None" using f n by simp
  have 4: "fst ?b = Inl AssertionError"
    using trace_steps_in_order[OF b] e8 by (simp add: x double_defs)
  have m: "fst (write_trace_params example_externals ?a 0 (example_trace log_0_5) run_world)
           = Inl (FileNotFoundError ''missing/params0'')"
    by (simp add: run_eval_defs eval_defs)
  have q: "?q = (fst ?q, snd ?q)" by simp
  have 5: "?q = (Inl (FileNotFoundError ''missing/params0''),
            snd (write_trace_params example_externals ?a 0 (example_trace log_0_5) run_world))"
    using trace_steps_in_order[OF q] m
    by (cases "write_trace_params example_externals ?a 0 (example_trace log_0_5) run_world")
       (auto simp: prod_eq_iff)
  from 1 2 3 4 5 show ?thesis by (simp only: simp_thms)
qed

text \<open>
  The assertion does not come first: with a weight of 0.5 the assertion fails, and the
  parameter file of the trace has been written by then; and where the file cannot be
  written, the body fails with the error of the write although the weight is in the band.
\<close>

theorem assertion_before_write_counterexample:
  "fst (process_trace example_externals run_args 0 (example_trace log_0_5) [] run_world)
     = Inl AssertionError
   \<and> dict_get (files run_world) ''out/params0'' = None
   \<and> dict_get (files (snd (process_trace example_externals run_args 0 (example_trace log_0_5)
         [] run_world))) ''out/params0''
     = Some (''days = 2'' @ [CHR 0x0A] @ ''fips = 42065'' @ [CHR 0x0A]
             @ ''shelter_in_place_duration_mean = 14'' @ [CHR 0x0A])
   \<and> fst (process_trace example_externals (run_args\<lparr>out_dir := ''missing''\<rparr>) 0
         (example_trace log_0_5) [] run_world)
     = Inl (FileNotFoundError ''missing/params0'')"
  by (simp add: process_trace_def classify_weight_def print_def run_eval_defs eval_defs double_defs)

section \<open>The loop over the traces and the diagnostic\<close>

lemma process_trace_table:
  assumes "process_trace ext a idx t tw w = (Inr tw', w')"
  shows "\<exists>v. tw' = dict_set tw idx v"
proof (cases "write_trace_params ext a idx t w")
  case (Pair r1 w1)
  show ?thesis
  proof (cases r1)
    case (Inl e)
    then show ?thesis using assms Pair by (simp add: process_trace_def)
  next
    case (Inr t')
    then show ?thesis using assms Pair
      by (auto simp: process_trace_def classify_weight_def Let_def split: if_splits)
  qed
qed

lemma trace_loop_keys:
  assumes "trace_loop ext a (enumerate i ts) tw w = (Inr tw', w')" "map fst tw = [0..<i]"
  shows "map fst tw' = [0..<i + length ts]"
  using assms
proof (induction ts arbitrary: i tw w)
  case Nil
  then show ?case by simp
next
  case (Cons t ts)
  obtain r1 w1 where p: "process_trace ext a i t tw w = (r1, w1)"
    by (cases "process_trace ext a i t tw w")
  show ?case
  proof (cases r1)
    case (Inl e)
    then show ?thesis using Cons.prems(1) p by simp
  next
    case (Inr tw1)
    from process_trace_table[OF p[unfolded Inr]] obtain v where tw1: "tw1 = dict_set tw i v"
      by blast
    have k: "map fst tw1 = [0..<Suc i]"
      using Cons.prems(2) by (simp add: tw1 dict_set_keys)
    have l: "trace_loop ext a (enumerate (Suc i) ts) tw1 w1 = (Inr tw', w')"
      using Cons.prems(1) p Inr by simp
    from Cons.IH[OF l k] show ?thesis by simp
  qed
qed

lemma sum_indices: "sum_list (map real [0..<n]) = real n * (real n - 1) / 2"
  by (induction n) (simp_all add: field_simps)

lemma mean_indices: "0 < n \<Longrightarrow> np_mean (map real [0..<n]) = Fin ((real n - 1) / 2)"
  by (simp add: np_mean_def sum_indices)

lemma save_results_stdout:
  "\<exists>rest. stdout (snd (save_results ext a tw w))
     = stdout w @ AverageSuccessRate (np_mean (map real (map fst tw))) # rest"
proof -
  have m: "map (\<lambda>(idx, y). real idx) tw = map real (map fst tw)"
    by (simp add: case_prod_beta)
  show ?thesis
    unfolding save_results_def Let_def m
    by (auto simp: print_def open_write_def split: prod.splits sum.splits)
qed

lemma run_finally_stdout: "\<exists>rest. stdout (snd (run_finally ext b w)) = stdout w @ rest"
  by (simp add: run_finally_def print_def split: option.splits)

lemma zipdir_stdout': "zipdir p d w = (r, w') \<Longrightarrow> stdout w' = stdout w"
  using zipdir_stdout[of p d w] by simp

lemma run_except_stdout: "\<exists>rest. stdout (snd (run_except a e w)) = stdout w @ rest"
  by (auto simp: run_except_def print_def split: option.splits prod.splits sum.splits
      dest!: zipdir_stdout')

lemma run_stdout:
  assumes "run_try ext a w = (r, b, w2)"
  shows "\<exists>rest. stdout (snd (run ext a w)) = stdout w2 @ rest"
proof (cases r)
  case (Inl e)
  obtain e' w3 where x: "run_except a e w2 = (e', w3)" by (cases "run_except a e w2")
  from run_except_stdout[of a e w2] x obtain r1 where 1: "stdout w3 = stdout w2 @ r1" by auto
  obtain r4 w4 where f: "run_finally ext b w3 = (r4, w4)" by (cases "run_finally ext b w3")
  from run_finally_stdout[of ext b w3] f obtain r2 where 2: "stdout w4 = stdout w3 @ r2" by auto
  have "snd (run ext a w) = w4"
    using assms Inl x f by (cases r4) (simp_all add: run_def)
  then show ?thesis using 1 2 by simp
next
  case (Inr u)
  obtain r4 w4 where f: "run_finally ext b w2 = (r4, w4)" by (cases "run_finally ext b w2")
  from run_finally_stdout[of ext b w2] f obtain r2 where 2: "stdout w4 = stdout w2 @ r2" by auto
  show ?thesis
  proof (cases r4)
    case (Inl e3)
    then have "snd (run ext a w) = w4" using assms Inr f by (simp add: run_def)
    then show ?thesis using 2 by simp
  next
    case (Inr u')
    show ?thesis
    proof (cases "compressed_file_path a")
      case None
      then have "snd (run ext a w) = w4" using assms \<open>r = Inr u\<close> f Inr by (simp add: run_def)
      then show ?thesis using 2 by simp
    next
      case (Some cfp)
      then have "snd (run ext a w) = snd (zipdir cfp (out_dir a) (print Compressing w4))"
        using assms \<open>r = Inr u\<close> f Inr by (simp add: run_def)
      then show ?thesis using 2 by (simp add: zipdir_stdout print_def)
    qed
  qed
qed

text \<open>
  Claim C2, amended. For every run whose loop over the traces completes: what is printed
  next, as the "average success rate", is \<^verbatim>\<open>np.mean\<close> of the trace indices, which
  depends on the number of traces only and not on the outcomes stored in the table. With
  at least one trace it is (number of traces - 1) / 2; with no trace it is nan. (The
  number of traces is below \<open>2^26\<close>, where the float64 sum of the indices is exact.)
\<close>

theorem average_success_rate_is_mean_of_indices:
  assumes "RemoteModel ext = None" and "days a = Some n"
    and "posterior ext (num_traces a)
           (map (\<lambda>i. (''obs_'' @ str_nat i, constraint_threshold a)) [0..<nat n]) = Inr traces"
    and "trace_loop ext a (enumerate 0 traces) [] w = (Inr trace_weights, w1)"
    and "length traces < 2 ^ 26"
  shows "\<exists>rest. stdout (snd (run ext a w))
            = stdout w1
              @ AverageSuccessRate
                  (if traces = [] then NaN else Fin ((real (length traces) - 1) / 2))
              # rest"
proof -
  have k: "map fst trace_weights = [0..<length traces]"
    using trace_loop_keys[OF assms(4)] by simp
  obtain r2 w2 where s: "save_results ext a trace_weights w1 = (r2, w2)"
    by (cases "save_results ext a trace_weights w1")
  have t: "run_try ext a w = (r2, True, w2)"
    using assms(1-4) s by (simp add: run_try_def)
  from save_results_stdout[of ext a trace_weights w1] s k obtain rest1 where
    1: "stdout w2 = stdout w1 @ AverageSuccessRate (np_mean (map real [0..<length traces])) # rest1"
    by auto
  from run_stdout[OF t] obtain rest2 where 2: "stdout (snd (run ext a w)) = stdout w2 @ rest2"
    by blast
  have m: "np_mean (map real [0..<length traces])
           = (if traces = [] then NaN else Fin ((real (length traces) - 1) / 2))"
    using mean_indices[of "length traces"] by (auto simp: np_mean_def)
  show ?thesis using 1 2 m by simp
qed

text \<open>Two traces, both with outcome 1: the diagnostic is 1/2.\<close>

theorem average_success_rate_is_mean_of_indices_witness:
  "RemoteModel (example_externals\<lparr>posterior := (\<lambda>n observe. Inr [example_trace (Fin 0), example_trace (Fin 0)])\<rparr>)
     = None
   \<and> days run_args = Some 2
   \<and> fst (trace_loop
          (example_externals\<lparr>posterior := (\<lambda>n observe. Inr [example_trace (Fin 0), example_trace (Fin 0)])\<rparr>)
          run_args (enumerate 0 [example_trace (Fin 0), example_trace (Fin 0)]) [] run_world)
       = Inr [(0, 1), (1, 1)]
   \<and> take 3 (stdout (snd (run
          (example_externals\<lparr>posterior := (\<lambda>n observe. Inr [example_trace (Fin 0), example_trace (Fin 0)])\<rparr>)
          run_args run_world)))
       = [Likelihood 0 (Fin 1), Likelihood 1 (Fin 1), AverageSuccessRate (Fin (1 / 2))]"
proof -
  let ?ts = "[example_trace (Fin 0), example_trace (Fin 0)]"
  let ?e = "example_externals\<lparr>posterior := (\<lambda>n observe. Inr ?ts)\<rparr>"
  let ?l = "trace_loop ?e run_args (enumerate 0 ?ts) [] run_world"
  have 1: "RemoteModel ?e = None" by (simp add: example_externals_def)
  have 2: "days run_args = Some 2" by (simp add: run_args_def)
  have 3: "posterior ?e (num_traces run_args)
             (map (\<lambda>i. (''obs_'' @ str_nat i, constraint_threshold run_args)) [0..<nat 2]) = Inr ?ts"
    by simp
  have l: "fst ?l = Inr [(0, 1), (1, 1)]
           \<and> stdout (snd ?l) = [Likelihood 0 (Fin 1), Likelihood 1 (Fin 1)]"
    by (simp add: enumerate_eq_zip process_trace_def classify_weight_def print_def
        run_eval_defs eval_defs double_defs)
  then have 4: "?l = (Inr [(0, 1), (1, 1)], snd ?l)" by (simp add: prod_eq_iff)
  have 5: "length ?ts < 2 ^ 26" by simp
  from average_success_rate_is_mean_of_indices[OF 1 2 3 4 5] l
  have "take 3 (stdout (snd (run ?e run_args run_world)))
          = [Likelihood 0 (Fin 1), Likelihood 1 (Fin 1), AverageSuccessRate (Fin (1 / 2))]"
    by auto
  with 1 2 l show ?thesis by simp
qed

text \<open>
  The formula of the claim fails for a run with no trace: the loop completes at once,
  the mean of the empty list of indices is nan, and nan is what is printed, not -1/2.
\<close>

theorem average_of_no_trace_counterexample:
  "num_traces (run_args\<lparr>num_traces := 0\<rparr>) = 0
   \<and> posterior example_externals 0
       (map (\<lambda>i. (''obs_'' @ str_nat i, constraint_threshold run_args)) [0..<nat 2]) = Inr []
   \<and> trace_loop example_externals (run_args\<lparr>num_traces := 0\<rparr>) (enumerate 0 []) [] run_world
       = (Inr [], run_world)
   \<and> stdout (snd (run example_externals (run_args\<lparr>num_traces := 0\<rparr>) run_world))
       = [AverageSuccessRate NaN, DoneKilling 4242]
   \<and> AverageSuccessRate NaN
       \<noteq> AverageSuccessRate (Fin ((real (num_traces (run_args\<lparr>num_traces := 0\<rparr>)) - 1) / 2))"
  by (simp add: run_def run_try_def run_finally_def save_results_def np_mean_def print_def
      run_world_def run_args_def eval_defs)

section \<open>The \<^verbatim>\<open>finally\<close> block when the model was never constructed\<close>

text \<open>
  Claim C10, amended. Whenever the construction of the remote model raises, \<^verbatim>\<open>run\<close>
  ends with UnboundLocalError for the name \<^verbatim>\<open>model\<close>, raised by the \<^verbatim>\<open>finally\<close>
  block, in place of the original exception. Before that, when an archive path is
  configured, the failure archive step has run if the original exception is one that
  \<^verbatim>\<open>except Exception\<close> catches, and nothing else has changed the state; an exception
  outside \<^verbatim>\<open>Exception\<close> skips the clause and leaves the state as it was.
\<close>

theorem unbound_model_in_finally:
  assumes "RemoteModel ext = Some e"
  shows "fst (run ext a w) = Inl (UnboundLocalError ''model'')
       \<and> snd (run ext a w)
           = (if is_Exception e
              then (case compressed_file_path a of
                      None \<Rightarrow> w
                    | Some cfp \<Rightarrow>
                        snd (zipdir (cfp @ ''_failed'') (out_dir a) (print FailedCompressing w)))
              else w)"
  using assms
  by (auto simp: run_def run_try_def run_except_def run_finally_def
      split: option.splits prod.splits sum.splits)

theorem unbound_model_in_finally_witness:
  "RemoteModel (example_externals\<lparr>RemoteModel := Some (Raised 1)\<rparr>)
     = Some (Raised 1)
   \<and> run (example_externals\<lparr>RemoteModel := Some (Raised 1)\<rparr>)
        (run_args\<lparr>compressed_file_path := Some ''out.zip''\<rparr>) run_world
     = (Inl (UnboundLocalError ''model''),
        run_world\<lparr>stdout := [FailedCompressing],
                   zips := [(''out.zip_failed'', [(''params_generated'', ''fips = 42065'')])]\<rparr>)"
proof -
  let ?e = "example_externals\<lparr>RemoteModel := Some (Raised 1)\<rparr>"
  let ?a = "run_args\<lparr>compressed_file_path := Some ''out.zip''\<rparr>"
  have 1: "RemoteModel ?e = Some (Raised 1)" by simp
  have z: "snd (zipdir (''out.zip'' @ ''_failed'') (out_dir ?a) (print FailedCompressing run_world))
           = run_world\<lparr>stdout := [FailedCompressing],
                   zips := [(''out.zip_failed'', [(''params_generated'', ''fips = 42065'')])]\<rparr>"
    by (simp add: zipdir_def members_def print_def run_args_def run_world_def eval_defs)
  from unbound_model_in_finally[OF 1, of ?a run_world] z
  have "run ?e ?a run_world
     = (Inl (UnboundLocalError ''model''),
        run_world\<lparr>stdout := [FailedCompressing],
                   zips := [(''out.zip_failed'', [(''params_generated'', ''fips = 42065'')])]\<rparr>)"
    by (simp add: prod_eq_iff is_Exception_def run_args_def)
  with 1 show ?thesis by simp
qed

text \<open>
  The archive step is not run for every exception: when the constructor is interrupted
  (KeyboardInterrupt) or exits (SystemExit) with an archive path configured, \<^verbatim>\<open>run\<close>
  still ends with UnboundLocalError, and nothing has been printed or archived.
\<close>

theorem archive_skipped_counterexample:
  "compressed_file_path (run_args\<lparr>compressed_file_path := Some ''out.zip''\<rparr>) = Some ''out.zip''
   \<and> run (example_externals\<lparr>RemoteModel := Some KeyboardInterrupt\<rparr>)
        (run_args\<lparr>compressed_file_path := Some ''out.zip''\<rparr>) run_world
     = (Inl (UnboundLocalError ''model''), run_world)
   \<and> run (example_externals\<lparr>RemoteModel := Some SystemExit\<rparr>)
        (run_args\<lparr>compressed_file_path := Some ''out.zip''\<rparr>) run_world
     = (Inl (UnboundLocalError ''model''), run_world)
   \<and> zips run_world = [] \<and> stdout run_world = []"
  by (simp add: run_def run_try_def run_except_def run_finally_def is_Exception_def
      run_world_def new_world_def)

section \<open>The simulations that the trajectory plot draws\<close>

lemma get_alphas_length:
  "get_alphas valid plot_valid = Inr alphas \<Longrightarrow> length alphas = length valid"
  by (auto simp: get_alphas_def Let_def split: selector.splits)

lemma get_alphas_ok: "plot_valid \<noteq> SelOther \<Longrightarrow> \<exists>alphas. get_alphas valid plot_valid = Inr alphas"
  by (cases plot_valid) (simp_all add: get_alphas_def Let_def)

lemma plot_series_ok:
  "\<forall>i \<in> set sims. i < n_cols A \<and> i < length alphas \<Longrightarrow>
   \<exists>ds. plot_series tag k A s alphas sims = Inr ds \<and> length ds = length sims"
  by (induction sims) (auto simp: column_from_def)

lemma plot_series_fails:
  "\<exists>i \<in> set sims. \<not> (i < n_cols A \<and> i < length alphas) \<Longrightarrow>
   plot_series tag k A s alphas sims = Inl IndexError"
proof (induction sims)
  case Nil
  then show ?case by simp
next
  case (Cons i sims)
  show ?case
  proof (cases "i < n_cols A \<and> i < length alphas")
    case True
    then have "plot_series tag k A s alphas sims = Inl IndexError" using Cons by auto
    then show ?thesis using True by (simp add: column_from_def)
  next
    case False
    then show ?thesis by (auto simp: column_from_def)
  qed
qed

text \<open>
  An ensemble smaller than the number of pre-drawn indices is plotted whole, and every
  access is in range.
\<close>

lemma small_ensemble_is_plotted:
  assumes "length valid < length sims" "n_sims res = length valid" "7 \<le> n_comp res"
    and "plot_valid \<noteq> SelOther"
  shows "\<exists>ds. make_trajectory_plot sims steps None res valid plot_valid = Inr ds"
proof -
  from get_alphas_ok[OF assms(4)] obtain alphas where a: "get_alphas valid plot_valid = Inr alphas"
    by blast
  have l: "length alphas = length valid" by (rule get_alphas_length[OF a])
  obtain p_n s_n e_n i_n r_n where
    g: "get_statistics res = Inr (p_n, s_n, e_n, i_n, r_n)"
    and c: "n_cols p_n = length valid" "n_cols s_n = length valid" "n_cols e_n = length valid"
           "n_cols i_n = length valid" "n_cols r_n = length valid"
    using assms(2,3) by (simp add: get_statistics_def Let_def)
  have s: "sims_to_plot_for sims valid = [0..<length valid]"
    using assms(1) by (simp add: sims_to_plot_for_def)
  have ok: "\<exists>ds. plot_series tag k A 0 alphas [0..<length valid] = Inr ds \<and> length ds = length [0..<length valid]"
    if "n_cols A = length valid" for tag k A
    using that l by (intro plot_series_ok) simp
  from ok[OF c(2), of "''green''" 1] ok[OF c(3), of "''blue''" 1] ok[OF c(5), of "''purple''" 1]
    ok[OF c(4), of "''red''" 2] ok[OF c(1), of "''k--''" 1]
  show ?thesis
    unfolding make_trajectory_plot_def by (auto simp: a g s Let_def)
qed

text \<open>
  An ensemble with at least as many simulations as there are pre-drawn indices is plotted
  at the pre-drawn indices, and the first series fails with IndexError as soon as one of
  them is not below the size of the ensemble.
\<close>

lemma large_ensemble_index_error:
  assumes "length sims \<le> length valid" "n_sims res = length valid" "7 \<le> n_comp res"
    and "plot_valid \<noteq> SelOther" and "\<exists>i \<in> set sims. length valid \<le> i"
  shows "make_trajectory_plot sims steps None res valid plot_valid = Inl IndexError"
proof -
  from get_alphas_ok[OF assms(4)] obtain alphas where a: "get_alphas valid plot_valid = Inr alphas"
    by blast
  have l: "length alphas = length valid" by (rule get_alphas_length[OF a])
  obtain p_n s_n e_n i_n r_n where
    g: "get_statistics res = Inr (p_n, s_n, e_n, i_n, r_n)" and c: "n_cols s_n = length valid"
    using assms(2,3) by (simp add: get_statistics_def Let_def)
  have s: "sims_to_plot_for sims valid = sims"
    using assms(1) by (simp add: sims_to_plot_for_def)
  from assms(5) obtain i where "i \<in> set sims" "\<not> (i < n_cols s_n \<and> i < length alphas)"
    using c l by auto
  then have "plot_series ''green'' 1 s_n 0 alphas sims = Inl IndexError"
    by (intro plot_series_fails) blast
  then show ?thesis
    unfolding make_trajectory_plot_def by (simp add: a g s Let_def)
qed

text \<open>
  Claim C9, at an input where it fails. The ensemble has 100 simulations and the
  pre-drawn indices, 100 numbers below 1000, hold 999: the indices are used as they are
  and the column 999 of a statistic with 100 columns is read, which raises IndexError.
  The accesses do not stay within the bounds of the ensemble.
\<close>

theorem make_trajectory_plot_index_out_of_range:
  "length (999 # replicate 99 (0::nat)) = n_sims_to_plot
   \<and> make_trajectory_plot (999 # replicate 99 0) 0 None
        \<lparr>n_time = 1, n_sims = 100, n_comp = 7, entry = (\<lambda>t i c. 0)\<rparr>
        (replicate 100 True) SelFalse
      = Inl IndexError"
  by (simp add: n_sims_to_plot_def make_trajectory_plot_def get_alphas_def get_statistics_def
      sims_to_plot_for_def column_from_def Let_def)

end
